theory Spec2Isabelle
  imports Complex_Main "HOL-Library.Monad_Syntax"
begin

section \<open>JavaScript values\<close>

text \<open>
  The type variable \<open>'n\<close> stands for the JavaScript \<open>number\<close> type (IEEE-754 doubles).
  The operators \<open>+\<close>, \<open>-\<close>, \<open>*\<close>, \<open>/\<close> and the literal \<open>0\<close> are those of the syntactic
  classes \<open>plus\<close>, \<open>minus\<close>, \<open>times\<close>, \<open>inverse\<close> and \<open>zero\<close>, which carry no laws: nothing
  proved below relies on associativity, exactness or any other property that doubles lack.
  The remaining primitives of the language are the fields of an environment record:
  the global \<open>isFinite\<close>, the value \<open>NaN\<close>, the number denoted by a numeric literal or by an
  integer-valued loop counter (\<open>js_number\<close>), \<open>Math.sqrt\<close> and \<open>Math.atan2\<close>.

  Sample counts (\<open>tSteps\<close>, \<open>resolution\<close>) are integers: the controls of the application
  only produce them through \<open>parseInt\<close> and fixed option lists.

  A call that may throw returns an \<open>option\<close>; \<open>None\<close> is the thrown exception. Every
  \<open>catch\<close> of the sources ignores the exception's value.
\<close>

record 'n jsenv =
  isFinite :: "'n \<Rightarrow> bool"
  NaN :: "'n"
  js_number :: "rat \<Rightarrow> 'n"
  Math_sqrt :: "'n \<Rightarrow> 'n"
  Math_atan2 :: "'n \<Rightarrow> 'n \<Rightarrow> 'n"

text \<open>\<open>String.prototype.trim\<close>: white space and line terminators in the one-byte range.\<close>

definition isWhiteSpace :: "char \<Rightarrow> bool" where
  "isWhiteSpace c \<longleftrightarrow>
     c \<in> set [CHR 0x09, CHR 0x0A, CHR 0x0B, CHR 0x0C, CHR 0x0D, CHR 0x20, CHR 0xA0]"

definition trim :: "string \<Rightarrow> string" where
  "trim s = rev (dropWhile isWhiteSpace (rev (dropWhile isWhiteSpace s)))"

text \<open>
  \<open>for (let step = 0; step < n; step++) body\<close>, for a body that neither changes the counter
  nor leaves the loop; \<open>continue\<close> is a body that returns the state unchanged.
\<close>

function for_loop :: "nat \<Rightarrow> int \<Rightarrow> (nat \<Rightarrow> 's \<Rightarrow> 's) \<Rightarrow> 's \<Rightarrow> 's" where
  "for_loop step n body s =
     (if int step < n then for_loop (Suc step) n body (body step s) else s)"
  by pat_completeness auto
termination
  by (relation "measure (\<lambda>(step, n, body, s). nat (n - int step))") auto

declare for_loop.simps [simp del]

section \<open>types/index.ts\<close>

record 'n ComplexPoint =
  re :: "'n"
  im :: "'n"

record 'n ContourEntry =
  ce_id :: string
  ce_expression :: string
  ce_transformFunction :: string
  ce_color :: string
  ce_enabled :: bool
  ce_tMin :: "'n"
  ce_tMax :: "'n"
  ce_tSteps :: int
  ce_animationSpeed :: "'n"

record 'n ContourIntegralData =
  ci_id :: string
  ci_color :: string
  ci_tValues :: "'n list"
  ci_contourPoints :: "'n ComplexPoint list"
  ci_integrandVectors :: "'n ComplexPoint list"
  ci_runningSum :: "'n ComplexPoint list"
  ci_finalValue :: "'n ComplexPoint"
  ci_expression :: string
  ci_transformFunction :: string

record 'n DomainColoringConfig =
  dc_expression :: string
  dc_xMin :: "'n"
  dc_xMax :: "'n"
  dc_yMin :: "'n"
  dc_yMax :: "'n"
  dc_resolution :: int
  dc_colorBy :: string

record 'n Surface3DConfig =
  sf_expression :: string
  sf_xMin :: "'n"
  sf_xMax :: "'n"
  sf_yMin :: "'n"
  sf_yMax :: "'n"
  sf_resolution :: int
  sf_heightBy :: string
  sf_colorBy :: string

text \<open>The object literals returned by the two grid generators.\<close>

record 'n DomainColoringData =
  dd_z :: "'n list list"
  dd_colors :: "'n list list"

record 'n Surface3DData =
  sd_x :: "'n list"
  sd_y :: "'n list"
  sd_z :: "'n list list"
  sd_colors :: "'n list list"

section \<open>The mathjs interface\<close>

text \<open>
  What \<open>evaluate\<close> of mathjs can return, as far as \<open>toComplexPoint\<close> can tell values apart:
  a JavaScript number; a mathjs \<open>Complex\<close>; \<open>null\<close> or \<open>undefined\<close>, on which a property
  access throws; any other value, given by its \<open>re\<close> and \<open>im\<close> properties where they are
  numbers (\<open>typeof c.re === 'number'\<close>).
\<close>

datatype 'n mval =
    MNumber 'n
  | MComplex 'n 'n
  | MOther "'n option" "'n option"
  | MNullish

type_synonym 'n scope = "string \<rightharpoonup> 'n mval"

type_synonym 'n EvalFunction = "'n scope \<Rightarrow> 'n mval option"

text \<open>
  Modelled from the spec: \<open>MathNode\<close>, the syntax tree of mathjs, is the tagged variant
  \<open>ExpressionNode\<close> of the data model (section 3 of the specification).
\<close>

datatype 'n ExpressionNode =
    NumberLiteral 'n
  | Constant string
  | Variable string
  | UnaryOp string "'n ExpressionNode"
  | BinaryOp string "'n ExpressionNode" "'n ExpressionNode"
  | Call string "'n ExpressionNode list"

type_synonym 'n MathNode = "'n ExpressionNode"

text \<open>
  The imports from mathjs: \<open>parse\<close> and \<open>compile\<close> (\<open>None\<close> when they throw) and the
  constants \<open>i\<close>, \<open>pi\<close>, \<open>e\<close>. The library is a parameter of every function below.
\<close>

record 'n mathjs =
  parse :: "string \<Rightarrow> 'n MathNode option"
  compile :: "string \<Rightarrow> 'n EvalFunction option"
  imaginaryUnit :: "'n mval"
  mj_pi :: "'n mval"
  eulerNumber :: "'n mval"

section \<open>math/parser.ts\<close>

record 'n ParsedExpression =
  pe_node :: "'n MathNode"
  pe_compiled :: "'n EvalFunction"
  pe_variable :: string

definition parseExpression :: "'n mathjs \<Rightarrow> string \<Rightarrow> string \<Rightarrow> 'n MathNode option" where
  "parseExpression mj expr variable =
     (if expr = [] \<or> trim expr = [] then None
      else parse mj expr)"

definition parseAndCompile :: "'n mathjs \<Rightarrow> string \<Rightarrow> string \<Rightarrow> 'n ParsedExpression option" where
  "parseAndCompile mj expr variable =
     (if expr = [] \<or> trim expr = [] then None
      else do {
        node \<leftarrow> parse mj expr;
        compiled \<leftarrow> compile mj expr;
        Some \<lparr>pe_node = node, pe_compiled = compiled, pe_variable = variable\<rparr>
      })"

definition isValidExpression :: "'n mathjs \<Rightarrow> string \<Rightarrow> bool" where
  "isValidExpression mj expr = (case parse mj expr of Some _ \<Rightarrow> True | None \<Rightarrow> False)"

section \<open>math/evaluator.ts: evaluation at a point\<close>

definition toMathComplex :: "'n ComplexPoint \<Rightarrow> 'n mval" where
  "toMathComplex point = MComplex (re point) (im point)"

fun toComplexPoint :: "'n::zero mval \<Rightarrow> 'n ComplexPoint option" where
  "toComplexPoint (MNumber c) = Some \<lparr>re = c, im = 0\<rparr>"
| "toComplexPoint (MComplex r i) = Some \<lparr>re = r, im = i\<rparr>"
| "toComplexPoint (MOther r i) =
     Some \<lparr>re = (case r of Some x \<Rightarrow> x | None \<Rightarrow> 0),
           im = (case i of Some y \<Rightarrow> y | None \<Rightarrow> 0)\<rparr>"
| "toComplexPoint MNullish = None"

definition evaluateAt :: "'n::zero ParsedExpression \<Rightarrow> 'n ComplexPoint \<Rightarrow> 'n ComplexPoint option" where
  "evaluateAt compiled point =
     (let scope = [pe_variable compiled \<mapsto> toMathComplex point]
      in do {
        result \<leftarrow> pe_compiled compiled scope;
        toComplexPoint result
      })"

definition modulus :: "'n::{plus,times} jsenv \<Rightarrow> 'n ComplexPoint \<Rightarrow> 'n" where
  "modulus env point = Math_sqrt env (re point * re point + im point * im point)"

definition argument :: "'n jsenv \<Rightarrow> 'n ComplexPoint \<Rightarrow> 'n" where
  "argument env point = Math_atan2 env (im point) (re point)"

definition getColorValue :: "'n::{plus,times} jsenv \<Rightarrow> 'n ComplexPoint \<Rightarrow> string \<Rightarrow> 'n" where
  "getColorValue env point colorBy =
     (if colorBy = ''modulus'' then modulus env point
      else if colorBy = ''argument'' then argument env point
      else if colorBy = ''real'' then re point
      else if colorBy = ''imaginary'' then im point
      else modulus env point)"

section \<open>math/evaluator.ts: the generators\<close>

definition mathConstants :: "'n mathjs \<Rightarrow> 'n scope" where
  "mathConstants mj = [''i'' \<mapsto> imaginaryUnit mj, ''pi'' \<mapsto> mj_pi mj, ''e'' \<mapsto> eulerNumber mj]"

subsection \<open>evaluateSingleContour\<close>

text \<open>The body of the loop; the state is the array \<open>points\<close>.\<close>

definition contour_body ::
  "'n::{zero,plus,times} jsenv \<Rightarrow> 'n mathjs \<Rightarrow> 'n EvalFunction \<Rightarrow> 'n EvalFunction option \<Rightarrow>
   'n \<Rightarrow> 'n \<Rightarrow> nat \<Rightarrow> 'n ComplexPoint list \<Rightarrow> 'n ComplexPoint list" where
  "contour_body env mj compiled compiledTransform tMin dt step points =
     (let t = tMin + js_number env (of_nat step) * dt
      in case (do {
           gammaResult \<leftarrow> compiled ([''t'' \<mapsto> MNumber t] ++ mathConstants mj);
           point \<leftarrow> toComplexPoint gammaResult;
           (case compiledTransform of
              Some ct \<Rightarrow> do {
                transformed \<leftarrow> ct ([''z'' \<mapsto> toMathComplex point] ++ mathConstants mj);
                toComplexPoint transformed
              }
            | None \<Rightarrow> Some point)
         }) of
           Some point \<Rightarrow>
             if isFinite env (re point) \<and> isFinite env (im point) then points @ [point]
             else points
         | None \<Rightarrow> points)"

definition evaluateSingleContour ::
  "'n::{zero,plus,minus,times,inverse} jsenv \<Rightarrow> 'n mathjs \<Rightarrow> string \<Rightarrow> string \<Rightarrow>
   'n \<Rightarrow> 'n \<Rightarrow> int \<Rightarrow> 'n ComplexPoint list" where
  "evaluateSingleContour env mj expression transformFunction tMin tMax tSteps =
     (if expression = [] \<or> trim expression = [] then []
      else case compile mj expression of
        None \<Rightarrow> []
      | Some compiled \<Rightarrow>
          let hasTransform = (transformFunction \<noteq> [] \<and> trim transformFunction \<noteq> [])
          in case (if hasTransform then map_option Some (compile mj transformFunction)
                   else Some None) of
               None \<Rightarrow> []
             | Some compiledTransform \<Rightarrow>
                 let dt = (tMax - tMin) / js_number env (of_int (max (tSteps - 1) 1))
                 in for_loop 0 tSteps
                      (contour_body env mj compiled compiledTransform tMin dt) [])"

subsection \<open>computeContourIntegral\<close>

definition complexMultiply ::
  "'n::{plus,minus,times} ComplexPoint \<Rightarrow> 'n ComplexPoint \<Rightarrow> 'n ComplexPoint" where
  "complexMultiply a b =
     \<lparr>re = re a * re b - im a * im b,
      im = re a * im b + im a * re b\<rparr>"

definition complexAdd :: "'n::plus ComplexPoint \<Rightarrow> 'n ComplexPoint \<Rightarrow> 'n ComplexPoint" where
  "complexAdd a b = \<lparr>re = re a + re b, im = im a + im b\<rparr>"

definition complexScale :: "'n::times ComplexPoint \<Rightarrow> 'n \<Rightarrow> 'n ComplexPoint" where
  "complexScale a scalar = \<lparr>re = re a * scalar, im = im a * scalar\<rparr>"

text \<open>The two closures of \<open>computeContourIntegral\<close>; a thrown exception becomes \<open>null\<close>.\<close>

definition evalGamma :: "'n::zero mathjs \<Rightarrow> 'n EvalFunction \<Rightarrow> 'n \<Rightarrow> 'n ComplexPoint option" where
  "evalGamma mj compiledGamma t =
     do {
       result \<leftarrow> compiledGamma ([''t'' \<mapsto> MNumber t] ++ mathConstants mj);
       toComplexPoint result
     }"

definition evalF ::
  "'n::zero mathjs \<Rightarrow> 'n EvalFunction \<Rightarrow> 'n ComplexPoint \<Rightarrow> 'n ComplexPoint option" where
  "evalF mj compiledF z =
     do {
       result \<leftarrow> compiledF ([''z'' \<mapsto> toMathComplex z] ++ mathConstants mj);
       toComplexPoint result
     }"

text \<open>
  The state of the loop: the four arrays and \<open>currentSum\<close>. Each \<open>continue\<close> returns the
  state as it is. \<open>gammaPrime\<close> is \<open>None\<close> where the source reaches the \<open>continue\<close> of the
  forward-difference branch.
\<close>

type_synonym 'n integral_state =
  "'n list \<times> 'n ComplexPoint list \<times> 'n ComplexPoint list \<times> 'n ComplexPoint list \<times> 'n ComplexPoint"

definition integral_body ::
  "'n::{zero,plus,minus,times,inverse} jsenv \<Rightarrow> 'n mathjs \<Rightarrow> 'n EvalFunction \<Rightarrow> 'n EvalFunction \<Rightarrow>
   'n \<Rightarrow> 'n \<Rightarrow> 'n \<Rightarrow> nat \<Rightarrow> 'n integral_state \<Rightarrow> 'n integral_state" where
  "integral_body env mj compiledGamma compiledF tMin dt h step s =
     (case s of (tValues, contourPoints, integrandVectors, runningSum, currentSum) \<Rightarrow>
      let t = tMin + js_number env (of_nat step) * dt
      in case evalGamma mj compiledGamma t of
           None \<Rightarrow> s
         | Some gamma \<Rightarrow>
             if \<not> isFinite env (re gamma) \<or> \<not> isFinite env (im gamma) then s
             else
               let gammaPlusH = evalGamma mj compiledGamma (t + h);
                   gammaMinusH = evalGamma mj compiledGamma (t - h);
                   forward =
                     (case evalGamma mj compiledGamma (t + h) of
                        Some gammaNext \<Rightarrow>
                          if isFinite env (re gammaNext) \<and> isFinite env (im gammaNext)
                          then Some \<lparr>re = (re gammaNext - re gamma) / h,
                                     im = (im gammaNext - im gamma) / h\<rparr>
                          else None
                      | None \<Rightarrow> None);
                   gammaPrime =
                     (case (gammaPlusH, gammaMinusH) of
                        (Some p, Some m) \<Rightarrow>
                          if isFinite env (re p) \<and> isFinite env (im p) \<and>
                             isFinite env (re m) \<and> isFinite env (im m)
                          then Some \<lparr>re = (re p - re m) / (js_number env 2 * h),
                                     im = (im p - im m) / (js_number env 2 * h)\<rparr>
                          else forward
                      | _ \<Rightarrow> forward)
               in case gammaPrime of
                    None \<Rightarrow> s
                  | Some gammaPrime \<Rightarrow>
                      (case evalF mj compiledF gamma of
                         None \<Rightarrow> s
                       | Some fValue \<Rightarrow>
                           if \<not> isFinite env (re fValue) \<or> \<not> isFinite env (im fValue) then s
                           else
                             let integrand = complexMultiply fValue gammaPrime
                             in if \<not> isFinite env (re integrand) \<or> \<not> isFinite env (im integrand)
                                then s
                                else
                                  let contribution = complexScale integrand dt;
                                      currentSum = complexAdd currentSum contribution
                                  in (tValues @ [t], contourPoints @ [gamma],
                                      integrandVectors @ [integrand],
                                      runningSum @ [currentSum], currentSum)))"

definition computeContourIntegral ::
  "'n::{zero,plus,minus,times,inverse} jsenv \<Rightarrow> 'n mathjs \<Rightarrow> 'n ContourEntry \<Rightarrow>
   'n ContourIntegralData option" where
  "computeContourIntegral env mj contour =
     (let expression = ce_expression contour;
          transformFunction = ce_transformFunction contour;
          tMin = ce_tMin contour; tMax = ce_tMax contour; tSteps = ce_tSteps contour
      in if expression = [] \<or> trim expression = [] then None
         else
           let fExpr = (if transformFunction \<noteq> [] \<and> trim transformFunction \<noteq> []
                        then transformFunction else ''1'')
           in case compile mj expression of
                None \<Rightarrow> None
              | Some compiledGamma \<Rightarrow>
                  (case compile mj fExpr of
                     None \<Rightarrow> None
                   | Some compiledF \<Rightarrow>
                       let dt = (tMax - tMin) / js_number env (of_int (max (tSteps - 1) 1));
                           h = dt * js_number env (1 / 100)
                       in case for_loop 0 tSteps
                                 (integral_body env mj compiledGamma compiledF tMin dt h)
                                 ([], [], [], [], \<lparr>re = 0, im = 0\<rparr>) of
                            (tValues, contourPoints, integrandVectors, runningSum, currentSum) \<Rightarrow>
                              if length tValues = 0 then None
                              else Some
                                \<lparr>ci_id = ce_id contour,
                                 ci_color = ce_color contour,
                                 ci_tValues = tValues,
                                 ci_contourPoints = contourPoints,
                                 ci_integrandVectors = integrandVectors,
                                 ci_runningSum = runningSum,
                                 ci_finalValue = currentSum,
                                 ci_expression = expression,
                                 ci_transformFunction = fExpr\<rparr>))"

subsection \<open>generateDomainColoringData\<close>

text \<open>The inner loop pushes onto \<open>row\<close> and \<open>colorRow\<close>, the outer loop onto \<open>z\<close> and \<open>colors\<close>.\<close>

definition domain_inner_body ::
  "'n::{zero,plus,times} jsenv \<Rightarrow> 'n mathjs \<Rightarrow> 'n EvalFunction \<Rightarrow> string \<Rightarrow> 'n \<Rightarrow> 'n \<Rightarrow> 'n \<Rightarrow>
   nat \<Rightarrow> 'n list \<times> 'n list \<Rightarrow> 'n list \<times> 'n list" where
  "domain_inner_body env mj compiled colorBy xMin dx y i s =
     (case s of (row, colorRow) \<Rightarrow>
      let x = xMin + js_number env (of_nat i) * dx;
          zInput = \<lparr>re = x, im = y\<rparr>
      in case (do {
           result \<leftarrow> compiled ([''z'' \<mapsto> toMathComplex zInput] ++ mathConstants mj);
           toComplexPoint result
         }) of
           Some output \<Rightarrow>
             let value = getColorValue env output colorBy
             in if isFinite env value then (row @ [value], colorRow @ [value])
                else (row @ [NaN env], colorRow @ [NaN env])
         | None \<Rightarrow> (row @ [NaN env], colorRow @ [NaN env]))"

definition domain_outer_body ::
  "'n::{zero,plus,times} jsenv \<Rightarrow> 'n mathjs \<Rightarrow> 'n EvalFunction \<Rightarrow> string \<Rightarrow> 'n \<Rightarrow> 'n \<Rightarrow> 'n \<Rightarrow> 'n \<Rightarrow>
   int \<Rightarrow> nat \<Rightarrow> 'n list list \<times> 'n list list \<Rightarrow> 'n list list \<times> 'n list list" where
  "domain_outer_body env mj compiled colorBy xMin dx yMin dy resolution j s =
     (case s of (z, colors) \<Rightarrow>
      let y = yMin + js_number env (of_nat j) * dy
      in case for_loop 0 resolution
                (domain_inner_body env mj compiled colorBy xMin dx y) ([], []) of
           (row, colorRow) \<Rightarrow> (z @ [row], colors @ [colorRow]))"

definition generateDomainColoringData ::
  "'n::{zero,plus,minus,times,inverse} jsenv \<Rightarrow> 'n mathjs \<Rightarrow> 'n DomainColoringConfig \<Rightarrow>
   'n DomainColoringData" where
  "generateDomainColoringData env mj config =
     (let expression = dc_expression config;
          xMin = dc_xMin config; xMax = dc_xMax config;
          yMin = dc_yMin config; yMax = dc_yMax config;
          resolution = dc_resolution config; colorBy = dc_colorBy config
      in if expression = [] \<or> trim expression = [] then \<lparr>dd_z = [], dd_colors = []\<rparr>
         else case compile mj expression of
           None \<Rightarrow> \<lparr>dd_z = [], dd_colors = []\<rparr>
         | Some compiled \<Rightarrow>
             let dx = (xMax - xMin) / js_number env (of_int (max (resolution - 1) 1));
                 dy = (yMax - yMin) / js_number env (of_int (max (resolution - 1) 1))
             in case for_loop 0 resolution
                       (domain_outer_body env mj compiled colorBy xMin dx yMin dy resolution)
                       ([], []) of
                  (z, colors) \<Rightarrow> \<lparr>dd_z = z, dd_colors = colors\<rparr>)"

subsection \<open>generateSurface3DData\<close>

text \<open>
  The axis arrays \<open>x\<close> and \<open>y\<close> are filled first and read back by index in the main loops;
  the indices read are below \<open>resolution\<close>, the length of both arrays.
\<close>

definition surface_inner_body ::
  "'n::{zero,plus,times} jsenv \<Rightarrow> 'n mathjs \<Rightarrow> 'n EvalFunction \<Rightarrow> string \<Rightarrow> string \<Rightarrow> 'n list \<Rightarrow> 'n \<Rightarrow>
   nat \<Rightarrow> 'n list \<times> 'n list \<Rightarrow> 'n list \<times> 'n list" where
  "surface_inner_body env mj compiled heightBy colorBy x yVal i s =
     (case s of (zRow, colorRow) \<Rightarrow>
      let xVal = x ! i;
          zInput = \<lparr>re = xVal, im = yVal\<rparr>
      in case (do {
           result \<leftarrow> compiled ([''z'' \<mapsto> toMathComplex zInput] ++ mathConstants mj);
           toComplexPoint result
         }) of
           Some output \<Rightarrow>
             let heightValue = getColorValue env output heightBy;
                 colorValue = getColorValue env output colorBy
             in ((if isFinite env heightValue then zRow @ [heightValue] else zRow @ [NaN env]),
                 (if isFinite env colorValue then colorRow @ [colorValue]
                  else colorRow @ [NaN env]))
         | None \<Rightarrow> (zRow @ [NaN env], colorRow @ [NaN env]))"

definition surface_outer_body ::
  "'n::{zero,plus,times} jsenv \<Rightarrow> 'n mathjs \<Rightarrow> 'n EvalFunction \<Rightarrow> string \<Rightarrow> string \<Rightarrow>
   'n list \<Rightarrow> 'n list \<Rightarrow> int \<Rightarrow> nat \<Rightarrow> 'n list list \<times> 'n list list \<Rightarrow> 'n list list \<times> 'n list list" where
  "surface_outer_body env mj compiled heightBy colorBy x y resolution j s =
     (case s of (z, colors) \<Rightarrow>
      let yVal = y ! j
      in case for_loop 0 resolution
                (surface_inner_body env mj compiled heightBy colorBy x yVal) ([], []) of
           (zRow, colorRow) \<Rightarrow> (z @ [zRow], colors @ [colorRow]))"

definition generateSurface3DData ::
  "'n::{zero,plus,minus,times,inverse} jsenv \<Rightarrow> 'n mathjs \<Rightarrow> 'n Surface3DConfig \<Rightarrow>
   'n Surface3DData" where
  "generateSurface3DData env mj config =
     (let expression = sf_expression config;
          xMin = sf_xMin config; xMax = sf_xMax config;
          yMin = sf_yMin config; yMax = sf_yMax config;
          resolution = sf_resolution config;
          heightBy = sf_heightBy config; colorBy = sf_colorBy config
      in if expression = [] \<or> trim expression = []
         then \<lparr>sd_x = [], sd_y = [], sd_z = [], sd_colors = []\<rparr>
         else case compile mj expression of
           None \<Rightarrow> \<lparr>sd_x = [], sd_y = [], sd_z = [], sd_colors = []\<rparr>
         | Some compiled \<Rightarrow>
             let dx = (xMax - xMin) / js_number env (of_int (max (resolution - 1) 1));
                 dy = (yMax - yMin) / js_number env (of_int (max (resolution - 1) 1));
                 x = for_loop 0 resolution
                       (\<lambda>i x. x @ [xMin + js_number env (of_nat i) * dx]) [];
                 y = for_loop 0 resolution
                       (\<lambda>j y. y @ [yMin + js_number env (of_nat j) * dy]) []
             in case for_loop 0 resolution
                       (surface_outer_body env mj compiled heightBy colorBy x y resolution)
                       ([], []) of
                  (z, colors) \<Rightarrow> \<lparr>sd_x = x, sd_y = y, sd_z = z, sd_colors = colors\<rparr>)"

section \<open>Reference definitions, in the words of the specification\<close>

text \<open>
  These definitions are not translations of source functions: they say, per sample or per
  cell, what the specification says a generator produces. The theorems compare the loops
  of the source with them.
\<close>

text \<open>Empty or whitespace-only text.\<close>

definition blank :: "string \<Rightarrow> bool" where
  "blank s = list_all isWhiteSpace s"

text \<open>A value that is present and has two finite components.\<close>

definition finite_point :: "'n jsenv \<Rightarrow> 'n ComplexPoint \<Rightarrow> bool" where
  "finite_point env p \<longleftrightarrow> isFinite env (re p) \<and> isFinite env (im p)"

text \<open>The spacing \<open>(hi - lo) / max(n - 1, 1)\<close> and the \<open>k\<close>-th sample position \<open>lo + k * d\<close>.\<close>

definition spacing :: "'n::{minus,inverse} jsenv \<Rightarrow> 'n \<Rightarrow> 'n \<Rightarrow> int \<Rightarrow> 'n" where
  "spacing env lo hi n = (hi - lo) / js_number env (of_int (max (n - 1) 1))"

definition position :: "'n::{plus,times} jsenv \<Rightarrow> 'n \<Rightarrow> 'n \<Rightarrow> nat \<Rightarrow> 'n" where
  "position env lo d k = lo + js_number env (of_nat k) * d"

text \<open>
  The contour sampler at the parameter \<open>t\<close>: \<open>\<gamma>(t)\<close>, then \<open>f(\<gamma>(t))\<close> when a transform is
  present; the sample is kept when that final value exists and is finite.
\<close>

definition contour_final ::
  "'n::zero mathjs \<Rightarrow> 'n EvalFunction \<Rightarrow> 'n EvalFunction option \<Rightarrow> 'n \<Rightarrow> 'n ComplexPoint option" where
  "contour_final mj gam f t =
     (case evalGamma mj gam t of
        None \<Rightarrow> None
      | Some g \<Rightarrow> (case f of None \<Rightarrow> Some g | Some cf \<Rightarrow> evalF mj cf g))"

definition contour_kept ::
  "'n::zero jsenv \<Rightarrow> 'n mathjs \<Rightarrow> 'n EvalFunction \<Rightarrow> 'n EvalFunction option \<Rightarrow> 'n \<Rightarrow>
   'n ComplexPoint option" where
  "contour_kept env mj gam f t =
     (case contour_final mj gam f t of
        None \<Rightarrow> None
      | Some p \<Rightarrow> if finite_point env p then Some p else None)"

text \<open>
  The derivative estimate of the integral engine at \<open>t\<close>, where \<open>g\<close> is \<open>\<gamma>(t)\<close>: the central
  difference when both shifted evaluations exist and are finite, else the forward
  difference when \<open>\<gamma>(t + h)\<close> exists and is finite, else nothing.
\<close>

definition central_difference ::
  "'n::{minus,times,inverse} jsenv \<Rightarrow> 'n ComplexPoint \<Rightarrow> 'n ComplexPoint \<Rightarrow> 'n \<Rightarrow> 'n ComplexPoint" where
  "central_difference env p m h =
     \<lparr>re = (re p - re m) / (js_number env 2 * h), im = (im p - im m) / (js_number env 2 * h)\<rparr>"

definition forward_difference ::
  "'n::{minus,inverse} ComplexPoint \<Rightarrow> 'n ComplexPoint \<Rightarrow> 'n \<Rightarrow> 'n ComplexPoint" where
  "forward_difference p g h = \<lparr>re = (re p - re g) / h, im = (im p - im g) / h\<rparr>"


definition derivative_estimate ::
  "'n::{zero,plus,minus,times,inverse} jsenv \<Rightarrow> 'n mathjs \<Rightarrow> 'n EvalFunction \<Rightarrow> 'n \<Rightarrow> 'n \<Rightarrow>
   'n ComplexPoint \<Rightarrow> 'n ComplexPoint option" where
  "derivative_estimate env mj gam t h g =
     (case (evalGamma mj gam (t + h), evalGamma mj gam (t - h)) of
        (Some p, Some m) \<Rightarrow>
          if finite_point env p \<and> finite_point env m then Some (central_difference env p m h)
          else if finite_point env p then Some (forward_difference p g h)
          else None
      | (Some p, None) \<Rightarrow>
          if finite_point env p then Some (forward_difference p g h) else None
      | (None, _) \<Rightarrow> None)"

text \<open>
  A sample of the integral engine survives when \<open>\<gamma>(t)\<close> is usable, the derivative estimate
  exists, \<open>f(\<gamma>(t))\<close> is usable and the integrand vector \<open>f(\<gamma>(t)) \<cdot> \<gamma>'(t)\<close> is finite. A
  surviving sample is recorded as the triple of \<open>t\<close>, \<open>\<gamma>(t)\<close> and the integrand vector.
\<close>

definition integral_sample ::
  "'n::{zero,plus,minus,times,inverse} jsenv \<Rightarrow> 'n mathjs \<Rightarrow> 'n EvalFunction \<Rightarrow> 'n EvalFunction \<Rightarrow>
   'n \<Rightarrow> 'n \<Rightarrow> ('n \<times> 'n ComplexPoint \<times> 'n ComplexPoint) option" where
  "integral_sample env mj gam f t h =
     (case evalGamma mj gam t of
        None \<Rightarrow> None
      | Some g \<Rightarrow>
          if \<not> finite_point env g then None
          else (case derivative_estimate env mj gam t h g of
                  None \<Rightarrow> None
                | Some g' \<Rightarrow>
                    (case evalF mj f g of
                       None \<Rightarrow> None
                     | Some fv \<Rightarrow>
                         if finite_point env fv \<and> finite_point env (complexMultiply fv g')
                         then Some (t, g, complexMultiply fv g')
                         else None)))"

text \<open>The surviving samples of a run, in increasing step order.\<close>

definition survivors ::
  "'n::{zero,plus,minus,times,inverse} jsenv \<Rightarrow> 'n mathjs \<Rightarrow> 'n EvalFunction \<Rightarrow> 'n EvalFunction \<Rightarrow>
   'n \<Rightarrow> 'n \<Rightarrow> int \<Rightarrow> ('n \<times> 'n ComplexPoint \<times> 'n ComplexPoint) list" where
  "survivors env mj gam f tMin tMax tSteps =
     (let dt = spacing env tMin tMax tSteps
      in List.map_filter
           (\<lambda>step. integral_sample env mj gam f (position env tMin dt step)
                      (dt * js_number env (1 / 100)))
           [0..<nat tSteps])"

text \<open>The sum of a list of contributions, accumulated from \<open>0 + 0i\<close> in list order.\<close>

definition accumulate :: "'n::{zero,plus} ComplexPoint list \<Rightarrow> 'n ComplexPoint" where
  "accumulate cs = foldl complexAdd \<lparr>re = 0, im = 0\<rparr> cs"

text \<open>The integrand expression in use: the transform, or the constant \<open>1\<close> when it is blank.\<close>

definition integrand_text :: "string \<Rightarrow> string" where
  "integrand_text transformFunction = (if blank transformFunction then ''1'' else transformFunction)"

text \<open>
  A grid cell: the value of \<open>f\<close> at a point, projected; the invalid marker \<open>NaN\<close> stands for
  a failed evaluation and for a non-finite scalar.
\<close>

definition grid_point ::
  "'n::{plus,times} jsenv \<Rightarrow> 'n \<Rightarrow> 'n \<Rightarrow> 'n \<Rightarrow> 'n \<Rightarrow> nat \<Rightarrow> nat \<Rightarrow> 'n ComplexPoint" where
  "grid_point env xMin dx yMin dy i j = \<lparr>re = position env xMin dx i, im = position env yMin dy j\<rparr>"

definition projected ::
  "'n::{plus,times} jsenv \<Rightarrow> 'n ComplexPoint option \<Rightarrow> string \<Rightarrow> 'n" where
  "projected env v proj =
     (case v of
        None \<Rightarrow> NaN env
      | Some out \<Rightarrow>
          if isFinite env (getColorValue env out proj) then getColorValue env out proj
          else NaN env)"

section \<open>The evaluator of the specification\<close>

text \<open>
  Modelled from the spec: the evaluator behind \<open>compile\<close> is mathjs, which is not part of
  the repository. Section 4.3 of the specification gives it as a recursive reduction of
  the tree. The meaning of the constants, operators and functions is a parameter; a
  variable resolves in the scope, and an unbound one is an evaluation error.
\<close>

record 'n semantics =
  sem_constant :: "string \<Rightarrow> 'n mval option"
  sem_unary :: "string \<Rightarrow> 'n mval \<Rightarrow> 'n mval option"
  sem_binary :: "string \<Rightarrow> 'n mval \<Rightarrow> 'n mval \<Rightarrow> 'n mval option"
  sem_call :: "string \<Rightarrow> 'n mval list \<Rightarrow> 'n mval option"

fun evaluate :: "'n semantics \<Rightarrow> 'n scope \<Rightarrow> 'n ExpressionNode \<Rightarrow> 'n mval option" where
  "evaluate sem scope (NumberLiteral x) = Some (MNumber x)"
| "evaluate sem scope (Constant name) = sem_constant sem name"
| "evaluate sem scope (Variable name) = scope name"
| "evaluate sem scope (UnaryOp opr a) =
     (case evaluate sem scope a of None \<Rightarrow> None | Some x \<Rightarrow> sem_unary sem opr x)"
| "evaluate sem scope (BinaryOp opr a b) =
     (case evaluate sem scope a of
        None \<Rightarrow> None
      | Some x \<Rightarrow> (case evaluate sem scope b of None \<Rightarrow> None | Some y \<Rightarrow> sem_binary sem opr x y))"
| "evaluate sem scope (Call name args) =
     (case those (map (evaluate sem scope) args) of
        None \<Rightarrow> None
      | Some vs \<Rightarrow> sem_call sem name vs)"

text \<open>Modelled from the spec: \<open>compile(node)\<close> prepares the tree for repeated evaluation.\<close>

definition compile_node :: "'n semantics \<Rightarrow> 'n ExpressionNode \<Rightarrow> 'n EvalFunction" where
  "compile_node sem node = (\<lambda>scope. evaluate sem scope node)"

text \<open>An occurrence of the variable \<open>v\<close> in a tree.\<close>

fun occurs :: "string \<Rightarrow> 'n ExpressionNode \<Rightarrow> bool" where
  "occurs v (NumberLiteral x) = False"
| "occurs v (Constant name) = False"
| "occurs v (Variable name) = (name = v)"
| "occurs v (UnaryOp opr a) = occurs v a"
| "occurs v (BinaryOp opr a b) = (occurs v a \<or> occurs v b)"
| "occurs v (Call name args) = list_ex (occurs v) args"

section \<open>An instance: idealised doubles and a small library\<close>

text \<open>
  The theorems below hold for every number type and every library. The concrete
  instance of this section serves to exhibit inputs, and to state the range of
  \<open>Math.atan2\<close>. A number is a real (exact arithmetic stands for rounded arithmetic; \<open>Fin 0\<close>
  is \<open>+0\<close>), the negative zero, an infinity or NaN, with the special cases of IEEE-754.
\<close>

datatype jsnum = Fin real | NegZero | PosInfinity | NegInfinity | NotANumber

fun is_zero :: "jsnum \<Rightarrow> bool" where
  "is_zero (Fin r) = (r = 0)"
| "is_zero NegZero = True"
| "is_zero _ = False"

fun is_infinite :: "jsnum \<Rightarrow> bool" where
  "is_infinite PosInfinity = True"
| "is_infinite NegInfinity = True"
| "is_infinite _ = False"

fun sign_bit :: "jsnum \<Rightarrow> bool" where
  "sign_bit (Fin r) = (r < 0)"
| "sign_bit NegZero = True"
| "sign_bit NegInfinity = True"
| "sign_bit _ = False"

fun magnitude :: "jsnum \<Rightarrow> real" where
  "magnitude (Fin r) = r"
| "magnitude _ = 0"

definition signed_zero :: "bool \<Rightarrow> jsnum" where
  "signed_zero negative = (if negative then NegZero else Fin 0)"

definition signed_infinity :: "bool \<Rightarrow> jsnum" where
  "signed_infinity negative = (if negative then NegInfinity else PosInfinity)"

definition rounded :: "real \<Rightarrow> bool \<Rightarrow> jsnum" where
  "rounded r negative = (if r = 0 then signed_zero negative else Fin r)"

fun jsnum_neg :: "jsnum \<Rightarrow> jsnum" where
  "jsnum_neg (Fin r) = (if r = 0 then NegZero else Fin (- r))"
| "jsnum_neg NegZero = Fin 0"
| "jsnum_neg PosInfinity = NegInfinity"
| "jsnum_neg NegInfinity = PosInfinity"
| "jsnum_neg NotANumber = NotANumber"

definition jsnum_add :: "jsnum \<Rightarrow> jsnum \<Rightarrow> jsnum" where
  "jsnum_add a b =
     (if a = NotANumber \<or> b = NotANumber then NotANumber
      else if is_infinite a \<and> is_infinite b then (if a = b then a else NotANumber)
      else if is_infinite a then a
      else if is_infinite b then b
      else if a = NegZero \<and> b = NegZero then NegZero
      else Fin (magnitude a + magnitude b))"

definition jsnum_mul :: "jsnum \<Rightarrow> jsnum \<Rightarrow> jsnum" where
  "jsnum_mul a b =
     (if a = NotANumber \<or> b = NotANumber then NotANumber
      else if (is_infinite a \<and> is_zero b) \<or> (is_zero a \<and> is_infinite b) then NotANumber
      else if is_infinite a \<or> is_infinite b then signed_infinity (sign_bit a \<noteq> sign_bit b)
      else rounded (magnitude a * magnitude b) (sign_bit a \<noteq> sign_bit b))"

definition jsnum_div :: "jsnum \<Rightarrow> jsnum \<Rightarrow> jsnum" where
  "jsnum_div a b =
     (if a = NotANumber \<or> b = NotANumber then NotANumber
      else if (is_infinite a \<and> is_infinite b) \<or> (is_zero a \<and> is_zero b) then NotANumber
      else if is_infinite a \<or> is_zero b then signed_infinity (sign_bit a \<noteq> sign_bit b)
      else if is_infinite b then signed_zero (sign_bit a \<noteq> sign_bit b)
      else rounded (magnitude a / magnitude b) (sign_bit a \<noteq> sign_bit b))"

instantiation jsnum :: "{zero,plus,minus,times,inverse}"
begin

definition zero_jsnum_def: "0 = Fin 0"
definition plus_jsnum_def: "a + b = jsnum_add a b"
definition minus_jsnum_def: "a - b = jsnum_add a (jsnum_neg b)"
definition times_jsnum_def: "a * b = jsnum_mul a b"
definition divide_jsnum_def: "divide a b = jsnum_div a b"
definition inverse_jsnum_def: "inverse a = jsnum_div (Fin 1) a"

instance ..

end

fun jsnum_isFinite :: "jsnum \<Rightarrow> bool" where
  "jsnum_isFinite (Fin r) = True"
| "jsnum_isFinite NegZero = True"
| "jsnum_isFinite _ = False"

fun jsnum_sqrt :: "jsnum \<Rightarrow> jsnum" where
  "jsnum_sqrt (Fin r) = (if r < 0 then NotANumber else Fin (sqrt r))"
| "jsnum_sqrt NegZero = NegZero"
| "jsnum_sqrt PosInfinity = PosInfinity"
| "jsnum_sqrt NegInfinity = NotANumber"
| "jsnum_sqrt NotANumber = NotANumber"

text \<open>
  \<open>Math.atan2(y, x)\<close> after its case table in ECMA-262 (section 21.3.2.8), with the exact
  real angle in place of its rounded double. In the general case both arguments are
  finite and non-zero.
\<close>

definition jsnum_atan2 :: "jsnum \<Rightarrow> jsnum \<Rightarrow> jsnum" where
  "jsnum_atan2 y x =
     (if y = NotANumber \<or> x = NotANumber then NotANumber
      else if y = PosInfinity then
        (if x = PosInfinity then Fin (pi / 4)
         else if x = NegInfinity then Fin (3 * pi / 4)
         else Fin (pi / 2))
      else if y = NegInfinity then
        (if x = PosInfinity then Fin (- pi / 4)
         else if x = NegInfinity then Fin (- 3 * pi / 4)
         else Fin (- pi / 2))
      else if y = Fin 0 then
        (if x = PosInfinity \<or> 0 < magnitude x \<or> x = Fin 0 then Fin 0 else Fin pi)
      else if y = NegZero then
        (if x = PosInfinity \<or> 0 < magnitude x \<or> x = Fin 0 then NegZero else Fin (- pi))
      else if 0 < magnitude y then
        (if x = PosInfinity then Fin 0
         else if x = NegInfinity then Fin pi
         else if is_zero x then Fin (pi / 2)
         else if 0 < magnitude x then Fin (arctan (magnitude y / magnitude x))
         else Fin (arctan (magnitude y / magnitude x) + pi))
      else
        (if x = PosInfinity then NegZero
         else if x = NegInfinity then Fin (- pi)
         else if is_zero x then Fin (- pi / 2)
         else if 0 < magnitude x then Fin (arctan (magnitude y / magnitude x))
         else Fin (arctan (magnitude y / magnitude x) - pi)))"

text \<open>Square roots and angles are not computed: evaluation leaves them as they stand.\<close>

declare jsnum_sqrt.simps [code del]
declare jsnum_atan2_def [code del]

definition ideal_env :: "jsnum jsenv" where
  "ideal_env =
     \<lparr>isFinite = jsnum_isFinite, NaN = NotANumber, js_number = (\<lambda>q. Fin (of_rat q)),
      Math_sqrt = jsnum_sqrt, Math_atan2 = jsnum_atan2\<rparr>"

text \<open>
  A library that knows seven expression texts, and agrees with mathjs on them: the
  variables \<open>t\<close> and \<open>z\<close>, the literal \<open>1\<close>, the quotient \<open>1/t\<close> and the product \<open>2*t\<close> of
  two plain numbers, the constant \<open>null\<close>, and the text \<open>(\<close>, which is a syntax error. Its
  evaluator is the one of the specification.
\<close>

definition sample_parse :: "string \<Rightarrow> jsnum MathNode option" where
  "sample_parse s =
     (if s = ''t'' then Some (Variable ''t'')
      else if s = ''z'' then Some (Variable ''z'')
      else if s = ''1'' then Some (NumberLiteral (Fin 1))
      else if s = ''1/t'' then Some (BinaryOp ''/'' (NumberLiteral (Fin 1)) (Variable ''t''))
      else if s = ''2*t'' then Some (BinaryOp ''*'' (NumberLiteral (Fin 2)) (Variable ''t''))
      else if s = ''null'' then Some (Constant ''null'')
      else None)"

definition sample_semantics :: "jsnum semantics" where
  "sample_semantics =
     \<lparr>sem_constant = (\<lambda>name. if name = ''null'' then Some MNullish else None),
      sem_unary = (\<lambda>opr x. None),
      sem_binary = (\<lambda>opr x y.
         case (x, y) of
           (MNumber a, MNumber b) \<Rightarrow>
             if opr = ''/'' then Some (MNumber (a / b))
             else if opr = ''*'' then Some (MNumber (a * b))
             else None
         | _ \<Rightarrow> None),
      sem_call = (\<lambda>name vs. None)\<rparr>"

definition sample_mathjs :: "jsnum mathjs" where
  "sample_mathjs =
     \<lparr>parse = sample_parse,
      compile = (\<lambda>s. map_option (compile_node sample_semantics) (sample_parse s)),
      imaginaryUnit = MComplex (Fin 0) (Fin 1),
      mj_pi = MNumber (Fin 3.141592653589793),
      eulerNumber = MNumber (Fin 2.718281828459045)\<rparr>"

text \<open>Sample inputs: the segment \<open>\<gamma>(t) = t\<close> on \<open>[0, 1]\<close> with two samples, and its integral data.\<close>

definition sample_contour :: "jsnum ContourEntry" where
  "sample_contour =
     \<lparr>ce_id = ''c1'', ce_expression = ''t'', ce_transformFunction = '' '', ce_color = ''red'',
      ce_enabled = True, ce_tMin = Fin 0, ce_tMax = Fin 1, ce_tSteps = 2,
      ce_animationSpeed = Fin 5\<rparr>"

definition sample_integral :: "jsnum ContourIntegralData" where
  "sample_integral =
     \<lparr>ci_id = ''c1'', ci_color = ''red'',
      ci_tValues = [Fin 0, Fin 1],
      ci_contourPoints = [\<lparr>re = Fin 0, im = Fin 0\<rparr>, \<lparr>re = Fin 1, im = Fin 0\<rparr>],
      ci_integrandVectors = [\<lparr>re = Fin 1, im = Fin 0\<rparr>, \<lparr>re = Fin 1, im = Fin 0\<rparr>],
      ci_runningSum = [\<lparr>re = Fin 1, im = Fin 0\<rparr>, \<lparr>re = Fin 2, im = Fin 0\<rparr>],
      ci_finalValue = \<lparr>re = Fin 2, im = Fin 0\<rparr>,
      ci_expression = ''t'', ci_transformFunction = ''1''\<rparr>"

text \<open>The unit square sampled on a 2 by 2 grid, for the identity and for \<open>null\<close>.\<close>

definition sample_domain :: "string \<Rightarrow> jsnum DomainColoringConfig" where
  "sample_domain expression =
     \<lparr>dc_expression = expression, dc_xMin = Fin 0, dc_xMax = Fin 1, dc_yMin = Fin 0,
      dc_yMax = Fin 1, dc_resolution = 2, dc_colorBy = ''real''\<rparr>"

definition sample_surface :: "string \<Rightarrow> jsnum Surface3DConfig" where
  "sample_surface expression =
     \<lparr>sf_expression = expression, sf_xMin = Fin 0, sf_xMax = Fin 1, sf_yMin = Fin 0,
      sf_yMax = Fin 1, sf_resolution = 2, sf_heightBy = ''real'', sf_colorBy = ''imaginary''\<rparr>"

text \<open>The half-open interval \<open>(-\<pi>, \<pi>]\<close> and the closed interval \<open>[-\<pi>, \<pi>]\<close> of idealised doubles.\<close>

definition in_half_open_range :: "jsnum \<Rightarrow> bool" where
  "in_half_open_range v =
     (case v of Fin r \<Rightarrow> - pi < r \<and> r \<le> pi | NegZero \<Rightarrow> True | _ \<Rightarrow> False)"

definition in_closed_range :: "jsnum \<Rightarrow> bool" where
  "in_closed_range v =
     (case v of Fin r \<Rightarrow> - pi \<le> r \<and> r \<le> pi | NegZero \<Rightarrow> True | _ \<Rightarrow> False)"

text \<open>The complex point of the cell in column \<open>i\<close> of row \<open>j\<close>, for the two grid configurations.\<close>

definition domain_point :: "'n::{plus,minus,times,inverse} jsenv \<Rightarrow> 'n DomainColoringConfig \<Rightarrow> nat \<Rightarrow> nat \<Rightarrow> 'n ComplexPoint" where
  "domain_point env config i j =
     grid_point env
       (dc_xMin config) (spacing env (dc_xMin config) (dc_xMax config) (dc_resolution config))
       (dc_yMin config) (spacing env (dc_yMin config) (dc_yMax config) (dc_resolution config))
       i j"

definition surface_point :: "'n::{plus,minus,times,inverse} jsenv \<Rightarrow> 'n Surface3DConfig \<Rightarrow> nat \<Rightarrow> nat \<Rightarrow> 'n ComplexPoint" where
  "surface_point env config i j =
     grid_point env
       (sf_xMin config) (spacing env (sf_xMin config) (sf_xMax config) (sf_resolution config))
       (sf_yMin config) (spacing env (sf_yMin config) (sf_yMax config) (sf_resolution config))
       i j"

text \<open>A second sample: \<open>\<gamma>(t) = 2t\<close> on \<open>[0, 1]\<close> with three samples and the integrand \<open>f(z) = z\<close>.\<close>

definition sample_contour_twice :: "jsnum ContourEntry" where
  "sample_contour_twice =
     \<lparr>ce_id = ''c2'', ce_expression = ''2*t'', ce_transformFunction = ''z'', ce_color = ''blue'',
      ce_enabled = True, ce_tMin = Fin 0, ce_tMax = Fin 1, ce_tSteps = 3,
      ce_animationSpeed = Fin 5\<rparr>"

definition sample_integral_twice :: "jsnum ContourIntegralData" where
  "sample_integral_twice =
     \<lparr>ci_id = ''c2'', ci_color = ''blue'',
      ci_tValues = [Fin 0, Fin (1 / 2), Fin 1],
      ci_contourPoints =
        [\<lparr>re = Fin 0, im = Fin 0\<rparr>, \<lparr>re = Fin 1, im = Fin 0\<rparr>, \<lparr>re = Fin 2, im = Fin 0\<rparr>],
      ci_integrandVectors =
        [\<lparr>re = Fin 0, im = Fin 0\<rparr>, \<lparr>re = Fin 2, im = Fin 0\<rparr>, \<lparr>re = Fin 4, im = Fin 0\<rparr>],
      ci_runningSum =
        [\<lparr>re = Fin 0, im = Fin 0\<rparr>, \<lparr>re = Fin 1, im = Fin 0\<rparr>, \<lparr>re = Fin 3, im = Fin 0\<rparr>],
      ci_finalValue = \<lparr>re = Fin 3, im = Fin 0\<rparr>,
      ci_expression = ''2*t'', ci_transformFunction = ''z''\<rparr>"

section \<open>generateSurface3DData with the calls of the evaluator made observable\<close>

text \<open>
  A pure function does not show how often it is called. In this second translation of
  \<open>generateSurface3DData\<close> the compiled expression is a state transformer: \<open>evaluate\<close> takes
  the state of the evaluator and returns the next one, also when it throws, and the
  loops thread that state through every call of \<open>compiled.evaluate\<close> that the source makes,
  in program order. Everything else is as above.
\<close>

type_synonym ('n, 's) StatefulEval = "'n scope \<Rightarrow> 's \<Rightarrow> 'n mval option \<times> 's"

definition surface_inner_body_st ::
  "'n::{zero,plus,times} jsenv \<Rightarrow> 'n mathjs \<Rightarrow> ('n, 's) StatefulEval \<Rightarrow> string \<Rightarrow> string \<Rightarrow>
   'n list \<Rightarrow> 'n \<Rightarrow> nat \<Rightarrow> 'n list \<times> 'n list \<times> 's \<Rightarrow> 'n list \<times> 'n list \<times> 's" where
  "surface_inner_body_st env mj compiled heightBy colorBy x yVal i s =
     (case s of (zRow, colorRow, st) \<Rightarrow>
      let xVal = x ! i;
          zInput = \<lparr>re = xVal, im = yVal\<rparr>
      in case compiled ([''z'' \<mapsto> toMathComplex zInput] ++ mathConstants mj) st of
           (result, st') \<Rightarrow>
             (case (case result of None \<Rightarrow> None | Some r \<Rightarrow> toComplexPoint r) of
                Some output \<Rightarrow>
                  let heightValue = getColorValue env output heightBy;
                      colorValue = getColorValue env output colorBy
                  in ((if isFinite env heightValue then zRow @ [heightValue]
                       else zRow @ [NaN env]),
                      (if isFinite env colorValue then colorRow @ [colorValue]
                       else colorRow @ [NaN env]),
                      st')
              | None \<Rightarrow> (zRow @ [NaN env], colorRow @ [NaN env], st')))"

definition surface_outer_body_st ::
  "'n::{zero,plus,times} jsenv \<Rightarrow> 'n mathjs \<Rightarrow> ('n, 's) StatefulEval \<Rightarrow> string \<Rightarrow> string \<Rightarrow>
   'n list \<Rightarrow> 'n list \<Rightarrow> int \<Rightarrow> nat \<Rightarrow> 'n list list \<times> 'n list list \<times> 's \<Rightarrow>
   'n list list \<times> 'n list list \<times> 's" where
  "surface_outer_body_st env mj compiled heightBy colorBy x y resolution j s =
     (case s of (z, colors, st) \<Rightarrow>
      let yVal = y ! j
      in case for_loop 0 resolution
                (surface_inner_body_st env mj compiled heightBy colorBy x yVal) ([], [], st) of
           (zRow, colorRow, st') \<Rightarrow> (z @ [zRow], colors @ [colorRow], st'))"

definition generateSurface3DData_st ::
  "'n::{zero,plus,minus,times,inverse} jsenv \<Rightarrow> 'n mathjs \<Rightarrow>
   (string \<Rightarrow> ('n, 's) StatefulEval option) \<Rightarrow> 'n Surface3DConfig \<Rightarrow> 's \<Rightarrow>
   'n Surface3DData \<times> 's" where
  "generateSurface3DData_st env mj compile_st config st =
     (let expression = sf_expression config;
          xMin = sf_xMin config; xMax = sf_xMax config;
          yMin = sf_yMin config; yMax = sf_yMax config;
          resolution = sf_resolution config;
          heightBy = sf_heightBy config; colorBy = sf_colorBy config
      in if expression = [] \<or> trim expression = []
         then (\<lparr>sd_x = [], sd_y = [], sd_z = [], sd_colors = []\<rparr>, st)
         else case compile_st expression of
           None \<Rightarrow> (\<lparr>sd_x = [], sd_y = [], sd_z = [], sd_colors = []\<rparr>, st)
         | Some compiled \<Rightarrow>
             let dx = (xMax - xMin) / js_number env (of_int (max (resolution - 1) 1));
                 dy = (yMax - yMin) / js_number env (of_int (max (resolution - 1) 1));
                 x = for_loop 0 resolution
                       (\<lambda>i x. x @ [xMin + js_number env (of_nat i) * dx]) [];
                 y = for_loop 0 resolution
                       (\<lambda>j y. y @ [yMin + js_number env (of_nat j) * dy]) []
             in case for_loop 0 resolution
                       (surface_outer_body_st env mj compiled heightBy colorBy x y resolution)
                       ([], [], st) of
                  (z, colors, st') \<Rightarrow>
                    (\<lparr>sd_x = x, sd_y = y, sd_z = z, sd_colors = colors\<rparr>, st'))"

text \<open>
  An evaluator that computes \<open>f\<close> and records each call in its state, and the cells of an
  \<open>n\<close> by \<open>n\<close> grid in row-major order, as pairs of column and row.
\<close>

definition recording :: "'n EvalFunction \<Rightarrow> ('n scope \<Rightarrow> 's \<Rightarrow> 's) \<Rightarrow> ('n, 's) StatefulEval" where
  "recording f note = (\<lambda>scope st. (f scope, note scope st))"

definition cells_row_major :: "nat \<Rightarrow> (nat \<times> nat) list" where
  "cells_row_major n = concat (map (\<lambda>j. map (\<lambda>i. (i, j)) [0..<n]) [0..<n])"

section \<open>Loops as folds\<close>

lemma for_loop_fold: "for_loop i n body s = fold body [i..<nat n] s"
proof (induction i n body s rule: for_loop.induct)
  case (1 step n body s)
  show ?case
  proof (cases "int step < n")
    case True
    then have "step < nat n" by linarith
    then have "[step..<nat n] = step # [Suc step..<nat n]" by (rule upt_conv_Cons)
    with True 1 show ?thesis by (subst for_loop.simps) simp
  next
    case False
    then have "[step..<nat n] = []" by simp
    with False show ?thesis by (subst for_loop.simps) simp
  qed
qed

lemma fold_push:
  assumes "\<And>k s. body k s = s @ f k"
  shows "fold body ks s = s @ concat (map f ks)"
  using assms by (induction ks arbitrary: s) simp_all

lemma concat_map_filter:
  "concat (map (\<lambda>k. case f k of None \<Rightarrow> [] | Some p \<Rightarrow> [p]) ks) = List.map_filter f ks"
  by (induction ks) (simp_all add: map_filter_simps split: option.splits)

lemma trim_Nil_iff: "trim s = [] \<longleftrightarrow> list_all isWhiteSpace s"
proof
  assume "trim s = []"
  then have all: "\<forall>x\<in>set (dropWhile isWhiteSpace s). isWhiteSpace x"
    by (simp add: trim_def dropWhile_eq_Nil_conv)
  have "dropWhile isWhiteSpace s = []"
  proof (rule ccontr)
    assume ne: "dropWhile isWhiteSpace s \<noteq> []"
    then have "\<not> isWhiteSpace (hd (dropWhile isWhiteSpace s))" by (rule hd_dropWhile)
    moreover from ne have "hd (dropWhile isWhiteSpace s) \<in> set (dropWhile isWhiteSpace s)"
      by (rule hd_in_set)
    ultimately show False using all by blast
  qed
  then show "list_all isWhiteSpace s" by (simp add: dropWhile_eq_Nil_conv list_all_iff)
next
  assume "list_all isWhiteSpace s"
  then show "trim s = []" by (auto simp: trim_def list_all_iff dest: set_dropWhileD)
qed

lemma blank_iff: "(s = [] \<or> trim s = []) \<longleftrightarrow> blank s"
  by (auto simp: blank_def trim_Nil_iff)

lemma not_blank_iff: "(s \<noteq> [] \<and> trim s \<noteq> []) \<longleftrightarrow> \<not> blank s"
  using blank_iff [of s] by blast

lemma contour_body_kept:
  "contour_body env mj compiled compiledTransform tMin dt step points =
     points @ (case contour_kept env mj compiled compiledTransform (position env tMin dt step) of
                 None \<Rightarrow> [] | Some p \<Rightarrow> [p])"
  by (auto simp: contour_body_def contour_kept_def contour_final_def evalGamma_def evalF_def
      position_def finite_point_def Let_def split: option.splits bind_splits)

lemma integral_body_sample:
  "integral_body env mj gam f tMin dt h step (tv, cp, iv, rs, cs) =
     (case integral_sample env mj gam f (position env tMin dt step) h of
        None \<Rightarrow> (tv, cp, iv, rs, cs)
      | Some (t, g, v) \<Rightarrow>
          (tv @ [t], cp @ [g], iv @ [v], rs @ [complexAdd cs (complexScale v dt)],
           complexAdd cs (complexScale v dt)))"
  by (auto simp: integral_body_def integral_sample_def derivative_estimate_def
      central_difference_def forward_difference_def
      position_def finite_point_def Let_def split: option.splits)

lemma contour_loop_eq:
  "for_loop 0 tSteps (contour_body env mj compiled compiledTransform tMin dt) [] =
     List.map_filter
       (\<lambda>step. contour_kept env mj compiled compiledTransform (position env tMin dt step))
       [0..<nat tSteps]"
  by (simp add: for_loop_fold fold_push [OF contour_body_kept] concat_map_filter)

lemma evaluateSingleContour_eq:
  assumes "\<not> blank expression"
    and "compile mj expression = Some compiled"
    and "compiledTransform = (if blank transformFunction then None else compile mj transformFunction)"
    and "\<not> blank transformFunction \<longrightarrow> compile mj transformFunction \<noteq> None"
  shows "evaluateSingleContour env mj expression transformFunction tMin tMax tSteps =
     List.map_filter
       (\<lambda>step. contour_kept env mj compiled compiledTransform
                  (position env tMin (spacing env tMin tMax tSteps) step))
       [0..<nat tSteps]"
  using assms
  by (auto simp: evaluateSingleContour_def blank_iff not_blank_iff contour_loop_eq spacing_def)

lemma length_map_filter_le: "length (List.map_filter f xs) \<le> length xs"
  by (simp add: map_filter_def)

lemma prefix_sums_Cons:
  assumes "n = length cs"
  shows "map (\<lambda>k. foldl g a (take (Suc k) (c # cs))) [0..<Suc n] =
     g a c # map (\<lambda>k. foldl g (g a c) (take (Suc k) cs)) [0..<n]"
proof -
  have "[0..<Suc n] = 0 # map Suc [0..<n]"
    by (simp add: upt_conv_Cons map_Suc_upt del: upt_Suc)
  then show ?thesis by (simp add: comp_def del: upt_Suc)
qed

lemma integral_fold:
  "fold (integral_body env mj gam f tMin dt h) ks (tv, cp, iv, rs, cs) =
     (let S = List.map_filter (\<lambda>step. integral_sample env mj gam f (position env tMin dt step) h) ks;
          C = map (\<lambda>(t, g, v). complexScale v dt) S
      in (tv @ map fst S, cp @ map (fst \<circ> snd) S, iv @ map (snd \<circ> snd) S,
          rs @ map (\<lambda>k. foldl complexAdd cs (take (Suc k) C)) [0..<length C],
          foldl complexAdd cs C))"
proof (induction ks arbitrary: tv cp iv rs cs)
  case Nil
  then show ?case by (simp add: map_filter_simps)
next
  case (Cons k ks)
  show ?case
  proof (cases "integral_sample env mj gam f (position env tMin dt k) h")
    case None
    then show ?thesis
      by (simp add: integral_body_sample Cons.IH map_filter_simps)
  next
    case (Some x)
    obtain t g v where x: "x = (t, g, v)" by (cases x)
    let ?S = "List.map_filter (\<lambda>step. integral_sample env mj gam f (position env tMin dt step) h) ks"
    let ?C = "map (\<lambda>(t, g, v). complexScale v dt) ?S"
    have sums: "map (\<lambda>k. foldl complexAdd cs (take (Suc k) (complexScale v dt # ?C)))
                  [0..<Suc (length ?S)] =
                complexAdd cs (complexScale v dt) #
                map (\<lambda>k. foldl complexAdd (complexAdd cs (complexScale v dt)) (take (Suc k) ?C))
                  [0..<length ?S]"
      by (rule prefix_sums_Cons) simp
    show ?thesis
      using Some x
      by (simp add: integral_body_sample Cons.IH map_filter_simps Let_def sums
          del: upt_Suc take_Suc_Cons)
  qed
qed

lemma computeContourIntegral_eq:
  assumes "\<not> blank (ce_expression contour)"
    and "compile mj (ce_expression contour) = Some gam"
    and "compile mj (integrand_text (ce_transformFunction contour)) = Some f"
  shows "computeContourIntegral env mj contour =
     (let dt = spacing env (ce_tMin contour) (ce_tMax contour) (ce_tSteps contour);
          S = survivors env mj gam f (ce_tMin contour) (ce_tMax contour) (ce_tSteps contour);
          C = map (\<lambda>(t, g, v). complexScale v dt) S
      in if S = [] then None
         else Some
           \<lparr>ci_id = ce_id contour,
            ci_color = ce_color contour,
            ci_tValues = map fst S,
            ci_contourPoints = map (fst \<circ> snd) S,
            ci_integrandVectors = map (snd \<circ> snd) S,
            ci_runningSum = map (\<lambda>k. accumulate (take (Suc k) C)) [0..<length C],
            ci_finalValue = accumulate C,
            ci_expression = ce_expression contour,
            ci_transformFunction = integrand_text (ce_transformFunction contour)\<rparr>)"
proof (cases "blank (ce_transformFunction contour)")
  case True
  with assms show ?thesis
    by (simp add: computeContourIntegral_def blank_iff not_blank_iff integrand_text_def
        for_loop_fold integral_fold survivors_def accumulate_def spacing_def Let_def
        del: upt_Suc)
next
  case False
  with assms show ?thesis
    by (simp add: computeContourIntegral_def blank_iff not_blank_iff integrand_text_def
        for_loop_fold integral_fold survivors_def accumulate_def spacing_def Let_def
        del: upt_Suc)
qed

lemma fold_push_pair:
  assumes "\<And>k a b. k \<in> set ks \<Longrightarrow> body k (a, b) = (a @ [f k], b @ [g k])"
  shows "fold body ks (a, b) = (a @ map f ks, b @ map g ks)"
  using assms by (induction ks arbitrary: a b) simp_all

lemma fold_push_single:
  "fold (\<lambda>k xs. xs @ [f k]) ks xs = xs @ map f ks"
  by (induction ks arbitrary: xs) simp_all

lemma domain_inner_body_cell:
  "domain_inner_body env mj compiled colorBy xMin dx y i (row, colorRow) =
     (row @ [projected env (evalF mj compiled \<lparr>re = position env xMin dx i, im = y\<rparr>) colorBy],
      colorRow @ [projected env (evalF mj compiled \<lparr>re = position env xMin dx i, im = y\<rparr>) colorBy])"
  by (simp add: domain_inner_body_def projected_def evalF_def position_def Let_def
      split: option.splits)

lemma domain_outer_body_row:
  "domain_outer_body env mj compiled colorBy xMin dx yMin dy resolution j (z, colors) =
     (z @ [map (\<lambda>i. projected env (evalF mj compiled (grid_point env xMin dx yMin dy i j)) colorBy)
             [0..<nat resolution]],
      colors @ [map (\<lambda>i. projected env (evalF mj compiled (grid_point env xMin dx yMin dy i j)) colorBy)
             [0..<nat resolution]])"
  by (simp add: domain_outer_body_def for_loop_fold grid_point_def position_def [symmetric]
      fold_push_pair [OF domain_inner_body_cell] Let_def)

lemma generateDomainColoringData_eq:
  assumes "\<not> blank (dc_expression config)"
    and "compile mj (dc_expression config) = Some compiled"
  shows "generateDomainColoringData env mj config =
     (let n = nat (dc_resolution config);
          dx = spacing env (dc_xMin config) (dc_xMax config) (dc_resolution config);
          dy = spacing env (dc_yMin config) (dc_yMax config) (dc_resolution config);
          grid = map (\<lambda>j. map (\<lambda>i. projected env
                        (evalF mj compiled (grid_point env (dc_xMin config) dx (dc_yMin config) dy i j))
                        (dc_colorBy config)) [0..<n]) [0..<n]
      in \<lparr>dd_z = grid, dd_colors = grid\<rparr>)"
  using assms
  by (simp add: generateDomainColoringData_def blank_iff for_loop_fold spacing_def Let_def
      fold_push_pair [OF domain_outer_body_row])

lemma surface_inner_body_cell:
  "surface_inner_body env mj compiled heightBy colorBy x yVal i (zRow, colorRow) =
     (zRow @ [projected env (evalF mj compiled \<lparr>re = x ! i, im = yVal\<rparr>) heightBy],
      colorRow @ [projected env (evalF mj compiled \<lparr>re = x ! i, im = yVal\<rparr>) colorBy])"
  by (simp add: surface_inner_body_def projected_def evalF_def Let_def
      split: option.splits)

lemma surface_outer_body_row:
  "surface_outer_body env mj compiled heightBy colorBy x y resolution j (z, colors) =
     (z @ [map (\<lambda>i. projected env (evalF mj compiled \<lparr>re = x ! i, im = y ! j\<rparr>) heightBy)
             [0..<nat resolution]],
      colors @ [map (\<lambda>i. projected env (evalF mj compiled \<lparr>re = x ! i, im = y ! j\<rparr>) colorBy)
             [0..<nat resolution]])"
  by (simp add: surface_outer_body_def for_loop_fold
      fold_push_pair [OF surface_inner_body_cell] Let_def)

lemma generateSurface3DData_eq:
  assumes "\<not> blank (sf_expression config)"
    and "compile mj (sf_expression config) = Some compiled"
  shows "generateSurface3DData env mj config =
     (let n = nat (sf_resolution config);
          dx = spacing env (sf_xMin config) (sf_xMax config) (sf_resolution config);
          dy = spacing env (sf_yMin config) (sf_yMax config) (sf_resolution config);
          cell = (\<lambda>i j. evalF mj compiled (grid_point env (sf_xMin config) dx (sf_yMin config) dy i j))
      in \<lparr>sd_x = map (position env (sf_xMin config) dx) [0..<n],
          sd_y = map (position env (sf_yMin config) dy) [0..<n],
          sd_z = map (\<lambda>j. map (\<lambda>i. projected env (cell i j) (sf_heightBy config)) [0..<n]) [0..<n],
          sd_colors = map (\<lambda>j. map (\<lambda>i. projected env (cell i j) (sf_colorBy config)) [0..<n]) [0..<n]\<rparr>)"
  using assms
  by (simp add: generateSurface3DData_def blank_iff for_loop_fold spacing_def Let_def
      fold_push_pair [OF surface_outer_body_row] fold_push_single grid_point_def
      position_def [abs_def])

section \<open>The contour sampler\<close>

text \<open>
  C2. For a contour whose curve expression is not blank and compiles (and whose transform,
  when one is given, compiles) and \<open>tSteps \<ge> 1\<close>, the sampler evaluates the curve, then
  the transform, at the parameters \<open>tMin + step * dt\<close> for \<open>step = 0 .. tSteps - 1\<close> with
  \<open>dt = (tMax - tMin) / max(tSteps - 1, 1)\<close>. A sample whose evaluation fails or whose
  final value is not finite is dropped; the output is the list of the kept samples in
  increasing step order, of length at most \<open>tSteps\<close>.
\<close>

theorem contour_samples_kept_in_order:
  assumes "\<not> blank expression"
    and "compile mj expression = Some compiled"
    and "compiledTransform = (if blank transformFunction then None else compile mj transformFunction)"
    and "\<not> blank transformFunction \<longrightarrow> compile mj transformFunction \<noteq> None"
    and "1 \<le> tSteps"
  shows "evaluateSingleContour env mj expression transformFunction tMin tMax tSteps =
           List.map_filter
             (\<lambda>step. contour_kept env mj compiled compiledTransform
                        (position env tMin (spacing env tMin tMax tSteps) step))
             [0..<nat tSteps]
         \<and> int (length (evaluateSingleContour env mj expression transformFunction tMin tMax tSteps))
             \<le> tSteps"
proof -
  have eq: "evaluateSingleContour env mj expression transformFunction tMin tMax tSteps =
           List.map_filter
             (\<lambda>step. contour_kept env mj compiled compiledTransform
                        (position env tMin (spacing env tMin tMax tSteps) step))
             [0..<nat tSteps]"
    using assms(1-4) by (rule evaluateSingleContour_eq)
  have "length (evaluateSingleContour env mj expression transformFunction tMin tMax tSteps)
          \<le> length [0..<nat tSteps]"
    unfolding eq by (rule length_map_filter_le)
  with assms(5) have "int (length (evaluateSingleContour env mj expression transformFunction tMin tMax tSteps))
          \<le> tSteps" by simp
  with eq show ?thesis by blast
qed

theorem contour_samples_kept_in_order_witness:
  "\<not> blank ''1/t'' \<and>
   compile sample_mathjs ''1/t'' =
     Some (compile_node sample_semantics (BinaryOp ''/'' (NumberLiteral (Fin 1)) (Variable ''t''))) \<and>
   compile sample_mathjs ''z'' = Some (compile_node sample_semantics (Variable ''z'')) \<and>
   \<not> blank ''z'' \<and> (1::int) \<le> 3 \<and>
   evaluateSingleContour ideal_env sample_mathjs ''1/t'' ''z'' (Fin 0) (Fin 1) 3 =
     List.map_filter
       (\<lambda>step. contour_kept ideal_env sample_mathjs
          (compile_node sample_semantics (BinaryOp ''/'' (NumberLiteral (Fin 1)) (Variable ''t'')))
          (Some (compile_node sample_semantics (Variable ''z'')))
          (position ideal_env (Fin 0) (spacing ideal_env (Fin 0) (Fin 1) 3) step))
       [0..<nat 3] \<and>
   evaluateSingleContour ideal_env sample_mathjs ''1/t'' ''z'' (Fin 0) (Fin 1) 3 =
     [\<lparr>re = Fin 2, im = Fin 0\<rparr>, \<lparr>re = Fin 1, im = Fin 0\<rparr>]"
proof -
  have h1: "\<not> blank ''1/t''" by code_simp
  have h2: "compile sample_mathjs ''1/t'' =
     Some (compile_node sample_semantics (BinaryOp ''/'' (NumberLiteral (Fin 1)) (Variable ''t'')))"
    by (simp add: sample_mathjs_def sample_parse_def)
  have h3: "compile sample_mathjs ''z'' = Some (compile_node sample_semantics (Variable ''z''))"
    by (simp add: sample_mathjs_def sample_parse_def)
  have nb: "\<not> blank ''z''" by code_simp
  have h4: "Some (compile_node sample_semantics (Variable ''z'')) =
     (if blank ''z'' then None else compile sample_mathjs ''z'')"
    using h3 nb by simp
  have h5: "\<not> blank ''z'' \<longrightarrow> compile sample_mathjs ''z'' \<noteq> None"
    using h3 by simp
  have h6: "(1::int) \<le> 3" by simp
  have v: "evaluateSingleContour ideal_env sample_mathjs ''1/t'' ''z'' (Fin 0) (Fin 1) 3 =
     [\<lparr>re = Fin 2, im = Fin 0\<rparr>, \<lparr>re = Fin 1, im = Fin 0\<rparr>]"
    by code_simp
  from contour_samples_kept_in_order [OF h1 h2 h4 h5 h6, of ideal_env "Fin 0" "Fin 1"]
  show ?thesis using h1 h2 h3 nb v by simp
qed

section \<open>The contour integral\<close>

lemma computeContourIntegral_SomeD:
  assumes "computeContourIntegral env mj contour = Some r"
  shows "\<not> blank (ce_expression contour) \<and>
         (\<exists>gam f. compile mj (ce_expression contour) = Some gam \<and>
                  compile mj (integrand_text (ce_transformFunction contour)) = Some f)"
  using assms
  by (cases "blank (ce_transformFunction contour)")
     (auto simp: computeContourIntegral_def blank_iff not_blank_iff integrand_text_def Let_def
       split: option.splits if_splits)




lemma sample_contour_result:
  "computeContourIntegral ideal_env sample_mathjs sample_contour = Some sample_integral"
  by code_simp

lemma sample_contour_compiled:
  "compile sample_mathjs (ce_expression sample_contour) =
     Some (compile_node sample_semantics (Variable ''t''))"
  "compile sample_mathjs (integrand_text (ce_transformFunction sample_contour)) =
     Some (compile_node sample_semantics (NumberLiteral (Fin 1)))"
  by (simp_all add: sample_mathjs_def sample_parse_def sample_contour_def integrand_text_def
      blank_def isWhiteSpace_def)

lemma sample_contour_twice_result:
  "computeContourIntegral ideal_env sample_mathjs sample_contour_twice = Some sample_integral_twice"
  by code_simp




text \<open>
  C10. Whenever \<open>computeContourIntegral\<close> returns a result, \<open>tValues\<close>, \<open>contourPoints\<close>,
  \<open>integrandVectors\<close> and \<open>runningSum\<close> have the same length, which is at least one; the
  entry \<open>k\<close> of \<open>runningSum\<close> is the componentwise sum, from \<open>0 + 0i\<close>, of the first \<open>k + 1\<close>
  contributions \<open>(v.re * dt, v.im * dt)\<close> of the integrand vectors \<open>v\<close>, and the last entry
  is \<open>finalValue\<close>.
\<close>

theorem contour_integral_running_sum:
  assumes "computeContourIntegral env mj contour = Some r"
  shows "length (ci_tValues r) = length (ci_runningSum r) \<and>
         length (ci_contourPoints r) = length (ci_runningSum r) \<and>
         length (ci_integrandVectors r) = length (ci_runningSum r) \<and>
         1 \<le> length (ci_runningSum r) \<and>
         (\<forall>k < length (ci_runningSum r).
            ci_runningSum r ! k =
              foldl (\<lambda>s c. \<lparr>re = re s + re c, im = im s + im c\<rparr>) \<lparr>re = 0, im = 0\<rparr>
                (map (\<lambda>v. \<lparr>re = re v * ((ce_tMax contour - ce_tMin contour) /
                                          js_number env (of_int (max (ce_tSteps contour - 1) 1))),
                             im = im v * ((ce_tMax contour - ce_tMin contour) /
                                          js_number env (of_int (max (ce_tSteps contour - 1) 1)))\<rparr>)
                   (take (Suc k) (ci_integrandVectors r)))) \<and>
         last (ci_runningSum r) = ci_finalValue r"
proof -
  let ?dt = "(ce_tMax contour - ce_tMin contour) /
               js_number env (of_int (max (ce_tSteps contour - 1) 1))"
  have dt: "spacing env (ce_tMin contour) (ce_tMax contour) (ce_tSteps contour) = ?dt"
    by (simp add: spacing_def)
  have add: "complexAdd = (\<lambda>s c. \<lparr>re = re s + re c, im = im s + im c\<rparr>)"
    by (simp add: complexAdd_def fun_eq_iff)
  have scale: "(\<lambda>v. complexScale v ?dt) = (\<lambda>v. \<lparr>re = re v * ?dt, im = im v * ?dt\<rparr>)"
    by (simp add: complexScale_def fun_eq_iff)
  from assms obtain gam f where nb: "\<not> blank (ce_expression contour)"
    and gam: "compile mj (ce_expression contour) = Some gam"
    and f: "compile mj (integrand_text (ce_transformFunction contour)) = Some f"
    using computeContourIntegral_SomeD by blast
  let ?S = "survivors env mj gam f (ce_tMin contour) (ce_tMax contour) (ce_tSteps contour)"
  let ?C = "map (\<lambda>(t, g, v). complexScale v ?dt) ?S"
  from assms computeContourIntegral_eq [OF nb gam f, of env]
  have ne: "?S \<noteq> []"
    and tv: "ci_tValues r = map fst ?S"
    and cp: "ci_contourPoints r = map (fst \<circ> snd) ?S"
    and iv: "ci_integrandVectors r = map (snd \<circ> snd) ?S"
    and rs: "ci_runningSum r = map (\<lambda>k. accumulate (take (Suc k) ?C)) [0..<length ?C]"
    and fv: "ci_finalValue r = accumulate ?C"
    by (auto simp: Let_def dt split: if_splits)
  have C: "?C = map (\<lambda>v. complexScale v ?dt) (ci_integrandVectors r)"
    by (simp add: iv case_prod_beta comp_def)
  have len: "length (ci_runningSum r) = length ?S" by (simp add: rs)
  have nth: "\<forall>k < length (ci_runningSum r).
      ci_runningSum r ! k =
        foldl (\<lambda>s c. \<lparr>re = re s + re c, im = im s + im c\<rparr>) \<lparr>re = 0, im = 0\<rparr>
          (map (\<lambda>v. \<lparr>re = re v * ?dt, im = im v * ?dt\<rparr>) (take (Suc k) (ci_integrandVectors r)))"
  proof (intro allI impI)
    fix k assume "k < length (ci_runningSum r)"
    then have k: "k < length ?C" by (simp add: rs)
    then have "ci_runningSum r ! k = accumulate (take (Suc k) ?C)"
      by (simp add: rs del: upt_Suc)
    then have "ci_runningSum r ! k =
        accumulate (map (\<lambda>v. complexScale v ?dt) (take (Suc k) (ci_integrandVectors r)))"
      by (simp only: C take_map)
    then show "ci_runningSum r ! k =
        foldl (\<lambda>s c. \<lparr>re = re s + re c, im = im s + im c\<rparr>) \<lparr>re = 0, im = 0\<rparr>
          (map (\<lambda>v. \<lparr>re = re v * ?dt, im = im v * ?dt\<rparr>) (take (Suc k) (ci_integrandVectors r)))"
      by (simp only: accumulate_def add scale)
  qed
  from ne have pos: "0 < length ?C" by simp
  then have "last (ci_runningSum r) = accumulate (take (Suc (length ?C - 1)) ?C)"
    unfolding rs by (simp add: last_map last_upt del: upt_Suc take_Suc)
  with pos have last: "last (ci_runningSum r) = ci_finalValue r"
    by (simp add: fv)
  from ne have "1 \<le> length (ci_runningSum r)"
    unfolding len by (cases ?S) simp_all
  with tv cp iv len nth last show ?thesis by simp
qed

theorem contour_integral_running_sum_witness:
  "computeContourIntegral ideal_env sample_mathjs sample_contour_twice = Some sample_integral_twice \<and>
   length (ci_tValues sample_integral_twice) = 3 \<and>
   length (ci_contourPoints sample_integral_twice) = 3 \<and>
   length (ci_integrandVectors sample_integral_twice) = 3 \<and>
   length (ci_runningSum sample_integral_twice) = 3 \<and>
   take (Suc 1) (ci_integrandVectors sample_integral_twice) =
     [\<lparr>re = Fin 0, im = Fin 0\<rparr>, \<lparr>re = Fin 2, im = Fin 0\<rparr>] \<and>
   ci_runningSum sample_integral_twice ! 1 =
     foldl (\<lambda>s c. \<lparr>re = re s + re c, im = im s + im c\<rparr>) \<lparr>re = 0, im = 0\<rparr>
       (map (\<lambda>v. \<lparr>re = re v * Fin (1 / 2), im = im v * Fin (1 / 2)\<rparr>)
          [\<lparr>re = Fin 0, im = Fin 0\<rparr>, \<lparr>re = Fin 2, im = Fin 0\<rparr>]) \<and>
   ci_runningSum sample_integral_twice ! 1 = \<lparr>re = Fin 1, im = Fin 0\<rparr> \<and>
   last (ci_runningSum sample_integral_twice) = ci_finalValue sample_integral_twice \<and>
   ci_finalValue sample_integral_twice = \<lparr>re = Fin 3, im = Fin 0\<rparr>"
proof -
  have dt: "(ce_tMax sample_contour_twice - ce_tMin sample_contour_twice) /
              js_number ideal_env (of_int (max (ce_tSteps sample_contour_twice - 1) 1)) = Fin (1 / 2)"
    by code_simp
  have v: "length (ci_tValues sample_integral_twice) = 3"
    "length (ci_contourPoints sample_integral_twice) = 3"
    "length (ci_integrandVectors sample_integral_twice) = 3"
    "length (ci_runningSum sample_integral_twice) = 3"
    "take (Suc 1) (ci_integrandVectors sample_integral_twice) =
       [\<lparr>re = Fin 0, im = Fin 0\<rparr>, \<lparr>re = Fin 2, im = Fin 0\<rparr>]"
    "ci_runningSum sample_integral_twice ! 1 = \<lparr>re = Fin 1, im = Fin 0\<rparr>"
    "ci_finalValue sample_integral_twice = \<lparr>re = Fin 3, im = Fin 0\<rparr>"
    by (simp_all add: sample_integral_twice_def)
  note t = contour_integral_running_sum [OF sample_contour_twice_result]
  from t v(4) have "ci_runningSum sample_integral_twice ! 1 =
     foldl (\<lambda>s c. \<lparr>re = re s + re c, im = im s + im c\<rparr>) \<lparr>re = 0, im = 0\<rparr>
       (map (\<lambda>v. \<lparr>re = re v * Fin (1 / 2), im = im v * Fin (1 / 2)\<rparr>)
          (take (Suc 1) (ci_integrandVectors sample_integral_twice)))"
    unfolding dt by simp
  then have 1: "ci_runningSum sample_integral_twice ! 1 =
     foldl (\<lambda>s c. \<lparr>re = re s + re c, im = im s + im c\<rparr>) \<lparr>re = 0, im = 0\<rparr>
       (map (\<lambda>v. \<lparr>re = re v * Fin (1 / 2), im = im v * Fin (1 / 2)\<rparr>)
          [\<lparr>re = Fin 0, im = Fin 0\<rparr>, \<lparr>re = Fin 2, im = Fin 0\<rparr>])"
    by (simp only: v(5))
  from t have 2: "last (ci_runningSum sample_integral_twice) = ci_finalValue sample_integral_twice"
    by blast
  from sample_contour_twice_result v 1 2 show ?thesis by blast
qed

lemma not_blank_integrand_text: "\<not> blank (integrand_text s)"
  by (simp add: integrand_text_def blank_def isWhiteSpace_def)

lemma computeContourIntegral_default:
  "computeContourIntegral env mj contour =
   computeContourIntegral env mj
     (contour\<lparr>ce_transformFunction := integrand_text (ce_transformFunction contour)\<rparr>)"
proof (cases "blank (ce_transformFunction contour)")
  case True
  moreover have "\<not> blank ''1''" by (simp add: blank_def isWhiteSpace_def)
  ultimately show ?thesis
    by (simp add: computeContourIntegral_def blank_iff not_blank_iff integrand_text_def Let_def
        split: option.splits prod.splits)
next
  case False
  then show ?thesis by (simp add: integrand_text_def)
qed

text \<open>
  C5. A blank transform stands for the integrand \<open>1\<close>: the engine gives the same answer as
  for the entry whose transform is the integrand text in use, and a result echoes that
  text. The engine returns \<open>null\<close> exactly when the curve expression is blank, when one of
  the two compilations fails, or when no sample survives; otherwise it returns a result.
  No case raises: the function is total.
\<close>

theorem contour_integral_null_cases:
  "computeContourIntegral env mj contour =
     computeContourIntegral env mj
       (contour\<lparr>ce_transformFunction := integrand_text (ce_transformFunction contour)\<rparr>)
   \<and> (computeContourIntegral env mj contour = None \<longleftrightarrow>
        blank (ce_expression contour) \<or>
        compile mj (ce_expression contour) = None \<or>
        compile mj (integrand_text (ce_transformFunction contour)) = None \<or>
        (\<exists>gam f. compile mj (ce_expression contour) = Some gam \<and>
                 compile mj (integrand_text (ce_transformFunction contour)) = Some f \<and>
                 survivors env mj gam f (ce_tMin contour) (ce_tMax contour) (ce_tSteps contour) = []))
   \<and> (\<forall>r. computeContourIntegral env mj contour = Some r \<longrightarrow>
          ci_transformFunction r = integrand_text (ce_transformFunction contour))"
proof -
  let ?e = "ce_expression contour"
  let ?fx = "integrand_text (ce_transformFunction contour)"
  have fx: "(if ce_transformFunction contour \<noteq> [] \<and> trim (ce_transformFunction contour) \<noteq> []
            then ce_transformFunction contour else ''1'') = ?fx"
    by (simp add: integrand_text_def not_blank_iff)
  have iff: "computeContourIntegral env mj contour = None \<longleftrightarrow>
        blank ?e \<or> compile mj ?e = None \<or> compile mj ?fx = None \<or>
        (\<exists>gam f. compile mj ?e = Some gam \<and> compile mj ?fx = Some f \<and>
                 survivors env mj gam f (ce_tMin contour) (ce_tMax contour) (ce_tSteps contour) = [])"
  proof (cases "blank ?e")
    case True
    then show ?thesis by (simp add: computeContourIntegral_def blank_iff)
  next
    case nb: False
    show ?thesis
    proof (cases "compile mj ?e")
      case None
      with nb show ?thesis by (simp add: computeContourIntegral_def blank_iff)
    next
      case gam: (Some gam)
      show ?thesis
      proof (cases "compile mj ?fx")
        case None
        with nb gam show ?thesis
          by (simp add: computeContourIntegral_def blank_iff fx Let_def)
      next
        case f: (Some f)
        from computeContourIntegral_eq [OF nb gam f, of env] nb gam f show ?thesis
          by (simp add: Let_def)
      qed
    qed
  qed
  have tf: "\<forall>r. computeContourIntegral env mj contour = Some r \<longrightarrow>
          ci_transformFunction r = ?fx"
  proof (intro allI impI)
    fix r assume r: "computeContourIntegral env mj contour = Some r"
    then obtain gam f where nb: "\<not> blank ?e"
      and gam: "compile mj ?e = Some gam" and f: "compile mj ?fx = Some f"
      using computeContourIntegral_SomeD by blast
    from r computeContourIntegral_eq [OF nb gam f, of env] show "ci_transformFunction r = ?fx"
      by (auto simp: Let_def split: if_splits)
  qed
  from computeContourIntegral_default iff tf show ?thesis by blast
qed

theorem contour_integral_null_cases_witness:
  "computeContourIntegral ideal_env sample_mathjs sample_contour = Some sample_integral \<and>
   ce_transformFunction sample_contour = '' '' \<and>
   ci_transformFunction sample_integral = ''1'' \<and>
   ci_transformFunction sample_integral = integrand_text (ce_transformFunction sample_contour) \<and>
   computeContourIntegral ideal_env sample_mathjs (sample_contour\<lparr>ce_expression := ''  ''\<rparr>) = None \<and>
   computeContourIntegral ideal_env sample_mathjs (sample_contour\<lparr>ce_expression := ''(''\<rparr>) = None \<and>
   computeContourIntegral ideal_env sample_mathjs (sample_contour\<lparr>ce_expression := ''null''\<rparr>) = None"
proof -
  have r: "computeContourIntegral ideal_env sample_mathjs sample_contour = Some sample_integral"
    by (rule sample_contour_result)
  have b: "blank (ce_expression (sample_contour\<lparr>ce_expression := ''  ''\<rparr>))" by code_simp
  have c: "compile sample_mathjs (ce_expression (sample_contour\<lparr>ce_expression := ''(''\<rparr>)) = None"
    by (simp add: sample_mathjs_def sample_parse_def)
  have n1: "compile sample_mathjs (ce_expression (sample_contour\<lparr>ce_expression := ''null''\<rparr>)) =
             Some (compile_node sample_semantics (Constant ''null''))"
    by (simp add: sample_mathjs_def sample_parse_def)
  have n2: "compile sample_mathjs
             (integrand_text (ce_transformFunction (sample_contour\<lparr>ce_expression := ''null''\<rparr>))) =
             Some (compile_node sample_semantics (NumberLiteral (Fin 1)))"
    using sample_contour_compiled(2) by simp
  have n3: "survivors ideal_env sample_mathjs (compile_node sample_semantics (Constant ''null''))
             (compile_node sample_semantics (NumberLiteral (Fin 1)))
             (ce_tMin (sample_contour\<lparr>ce_expression := ''null''\<rparr>))
             (ce_tMax (sample_contour\<lparr>ce_expression := ''null''\<rparr>))
             (ce_tSteps (sample_contour\<lparr>ce_expression := ''null''\<rparr>)) = []"
    by code_simp
  note n = n1 n2 n3
  have t: "ce_transformFunction sample_contour = '' ''" by (simp add: sample_contour_def)
  have i: "ci_transformFunction sample_integral = ''1''" by (simp add: sample_integral_def)
  from contour_integral_null_cases [of ideal_env sample_mathjs sample_contour] r
  have 1: "ci_transformFunction sample_integral = integrand_text (ce_transformFunction sample_contour)"
    by blast
  from contour_integral_null_cases [of ideal_env sample_mathjs "sample_contour\<lparr>ce_expression := ''  ''\<rparr>"] b
  have 2: "computeContourIntegral ideal_env sample_mathjs (sample_contour\<lparr>ce_expression := ''  ''\<rparr>) = None"
    by blast
  from contour_integral_null_cases [of ideal_env sample_mathjs "sample_contour\<lparr>ce_expression := ''(''\<rparr>"] c
  have 3: "computeContourIntegral ideal_env sample_mathjs (sample_contour\<lparr>ce_expression := ''(''\<rparr>) = None"
    by blast
  from contour_integral_null_cases [of ideal_env sample_mathjs "sample_contour\<lparr>ce_expression := ''null''\<rparr>"] n
  have 4: "computeContourIntegral ideal_env sample_mathjs (sample_contour\<lparr>ce_expression := ''null''\<rparr>) = None"
    by blast
  from r t i 1 2 3 4 show ?thesis by blast
qed

section \<open>The grid generators\<close>

lemma domain_grid_facts:
  assumes "\<not> blank (dc_expression config)"
    and "compile mj (dc_expression config) = Some f"
  shows "length (dd_z (generateDomainColoringData env mj config)) = nat (dc_resolution config)"
    and "length (dd_colors (generateDomainColoringData env mj config)) = nat (dc_resolution config)"
    and "j < nat (dc_resolution config) \<Longrightarrow>
         length (dd_z (generateDomainColoringData env mj config) ! j) = nat (dc_resolution config)"
    and "j < nat (dc_resolution config) \<Longrightarrow>
         length (dd_colors (generateDomainColoringData env mj config) ! j) = nat (dc_resolution config)"
    and "j < nat (dc_resolution config) \<Longrightarrow> i < nat (dc_resolution config) \<Longrightarrow>
         dd_z (generateDomainColoringData env mj config) ! j ! i =
           projected env (evalF mj f (domain_point env config i j)) (dc_colorBy config)"
    and "j < nat (dc_resolution config) \<Longrightarrow> i < nat (dc_resolution config) \<Longrightarrow>
         dd_colors (generateDomainColoringData env mj config) ! j ! i =
           projected env (evalF mj f (domain_point env config i j)) (dc_colorBy config)"
  by (simp_all add: generateDomainColoringData_eq [OF assms] Let_def domain_point_def
      del: upt_Suc)

lemma surface_grid_facts:
  assumes "\<not> blank (sf_expression config)"
    and "compile mj (sf_expression config) = Some f"
  shows "length (sd_z (generateSurface3DData env mj config)) = nat (sf_resolution config)"
    and "length (sd_colors (generateSurface3DData env mj config)) = nat (sf_resolution config)"
    and "j < nat (sf_resolution config) \<Longrightarrow>
         length (sd_z (generateSurface3DData env mj config) ! j) = nat (sf_resolution config)"
    and "j < nat (sf_resolution config) \<Longrightarrow>
         length (sd_colors (generateSurface3DData env mj config) ! j) = nat (sf_resolution config)"
    and "j < nat (sf_resolution config) \<Longrightarrow> i < nat (sf_resolution config) \<Longrightarrow>
         sd_z (generateSurface3DData env mj config) ! j ! i =
           projected env (evalF mj f (surface_point env config i j)) (sf_heightBy config)"
    and "j < nat (sf_resolution config) \<Longrightarrow> i < nat (sf_resolution config) \<Longrightarrow>
         sd_colors (generateSurface3DData env mj config) ! j ! i =
           projected env (evalF mj f (surface_point env config i j)) (sf_colorBy config)"
    and "length (sd_x (generateSurface3DData env mj config)) = nat (sf_resolution config)"
    and "length (sd_y (generateSurface3DData env mj config)) = nat (sf_resolution config)"
    and "i < nat (sf_resolution config) \<Longrightarrow>
         sd_x (generateSurface3DData env mj config) ! i = re (surface_point env config i j)"
    and "j < nat (sf_resolution config) \<Longrightarrow>
         sd_y (generateSurface3DData env mj config) ! j = im (surface_point env config i j)"
  by (simp_all add: generateSurface3DData_eq [OF assms] Let_def surface_point_def grid_point_def
      del: upt_Suc)

lemma rows_length:
  assumes "length g = n" and "\<And>j. j < n \<Longrightarrow> length (g ! j) = n"
  shows "\<forall>row \<in> set g. length row = n"
  using assms by (auto simp: in_set_conv_nth)

lemma fold_push_triple:
  assumes "\<And>k a b s. k \<in> set ks \<Longrightarrow> body k (a, b, s) = (a @ [f k], b @ [g k], h k s)"
  shows "fold body ks (a, b, s) = (a @ map f ks, b @ map g ks, fold h ks s)"
  using assms by (induction ks arbitrary: a b s) simp_all

lemma surface_inner_body_st_cell:
  "surface_inner_body_st env mj (recording g note) heightBy colorBy x yVal i (zRow, colorRow, st) =
     (zRow @ [projected env (evalF mj g \<lparr>re = x ! i, im = yVal\<rparr>) heightBy],
      colorRow @ [projected env (evalF mj g \<lparr>re = x ! i, im = yVal\<rparr>) colorBy],
      note ([''z'' \<mapsto> toMathComplex \<lparr>re = x ! i, im = yVal\<rparr>] ++ mathConstants mj) st)"
  by (simp add: surface_inner_body_st_def recording_def projected_def evalF_def Let_def
      split: option.splits)

lemma surface_outer_body_st_row:
  "surface_outer_body_st env mj (recording g note) heightBy colorBy x y resolution j (z, colors, st) =
     (z @ [map (\<lambda>i. projected env (evalF mj g \<lparr>re = x ! i, im = y ! j\<rparr>) heightBy)
             [0..<nat resolution]],
      colors @ [map (\<lambda>i. projected env (evalF mj g \<lparr>re = x ! i, im = y ! j\<rparr>) colorBy)
             [0..<nat resolution]],
      fold (\<lambda>i. note ([''z'' \<mapsto> toMathComplex \<lparr>re = x ! i, im = y ! j\<rparr>] ++ mathConstants mj))
        [0..<nat resolution] st)"
  by (simp add: surface_outer_body_st_def for_loop_fold
      fold_push_triple [OF surface_inner_body_st_cell] Let_def)

lemma fold_cells_row_major:
  "fold (\<lambda>(i, j). F i j) (cells_row_major n) st =
   fold (\<lambda>j. fold (\<lambda>i. F i j) [0..<n]) [0..<n] st"
proof -
  have "fold (\<lambda>(i, j). F i j) (concat (map (\<lambda>j. map (\<lambda>i. (i, j)) is) js)) st =
        fold (\<lambda>j. fold (\<lambda>i. F i j) is) js st" for "is" js :: "nat list"
    by (induction js arbitrary: st) (simp_all add: fold_map comp_def)
  then show ?thesis by (simp add: cells_row_major_def)
qed

lemma fold_fold_cong:
  assumes "\<And>i j. i \<in> set is \<Longrightarrow> j \<in> set js \<Longrightarrow> F i j = G i j"
  shows "fold (\<lambda>j. fold (\<lambda>i. F i j) is) js st = fold (\<lambda>j. fold (\<lambda>i. G i j) is) js st"
  using assms
proof (induction js arbitrary: st)
  case Nil
  then show ?case by simp
next
  case (Cons j js)
  have "fold (\<lambda>i. F i j) is st = fold (\<lambda>i. G i j) is st"
    by (rule fold_cong) (simp_all add: Cons.prems)
  with Cons show ?case by simp
qed

lemma generateSurface3DData_st_eq:
  assumes "\<not> blank (sf_expression config)"
    and "compile mj (sf_expression config) = Some g"
    and "compile_st (sf_expression config) = Some (recording g note)"
  shows "generateSurface3DData_st env mj compile_st config st =
     (generateSurface3DData env mj config,
      fold (\<lambda>(i, j). note ([''z'' \<mapsto> toMathComplex (surface_point env config i j)] ++
                             mathConstants mj))
        (cells_row_major (nat (sf_resolution config))) st)"
proof -
  let ?n = "nat (sf_resolution config)"
  let ?dx = "spacing env (sf_xMin config) (sf_xMax config) (sf_resolution config)"
  let ?dy = "spacing env (sf_yMin config) (sf_yMax config) (sf_resolution config)"
  let ?x = "map (position env (sf_xMin config) ?dx) [0..<?n]"
  let ?y = "map (position env (sf_yMin config) ?dy) [0..<?n]"
  have calls: "fold (\<lambda>j. fold (\<lambda>i. note ([''z'' \<mapsto> toMathComplex \<lparr>re = ?x ! i, im = ?y ! j\<rparr>] ++
                                           mathConstants mj)) [0..<?n]) [0..<?n] st =
        fold (\<lambda>(i, j). note ([''z'' \<mapsto> toMathComplex (surface_point env config i j)] ++
                             mathConstants mj)) (cells_row_major ?n) st"
    unfolding fold_cells_row_major
    by (rule fold_fold_cong) (simp add: surface_point_def grid_point_def)
  have "generateSurface3DData_st env mj compile_st config st =
     (\<lparr>sd_x = ?x, sd_y = ?y,
       sd_z = map (\<lambda>j. map (\<lambda>i. projected env (evalF mj g \<lparr>re = ?x ! i, im = ?y ! j\<rparr>)
                                  (sf_heightBy config)) [0..<?n]) [0..<?n],
       sd_colors = map (\<lambda>j. map (\<lambda>i. projected env (evalF mj g \<lparr>re = ?x ! i, im = ?y ! j\<rparr>)
                                  (sf_colorBy config)) [0..<?n]) [0..<?n]\<rparr>,
      fold (\<lambda>j. fold (\<lambda>i. note ([''z'' \<mapsto> toMathComplex \<lparr>re = ?x ! i, im = ?y ! j\<rparr>] ++
                                           mathConstants mj)) [0..<?n]) [0..<?n] st)"
    using assms(1,3)
    by (simp add: generateSurface3DData_st_def blank_iff for_loop_fold spacing_def Let_def
        fold_push_triple [OF surface_outer_body_st_row] fold_push_single
        position_def [abs_def])
  moreover have "generateSurface3DData env mj config =
     \<lparr>sd_x = ?x, sd_y = ?y,
       sd_z = map (\<lambda>j. map (\<lambda>i. projected env (evalF mj g \<lparr>re = ?x ! i, im = ?y ! j\<rparr>)
                                  (sf_heightBy config)) [0..<?n]) [0..<?n],
       sd_colors = map (\<lambda>j. map (\<lambda>i. projected env (evalF mj g \<lparr>re = ?x ! i, im = ?y ! j\<rparr>)
                                  (sf_colorBy config)) [0..<?n]) [0..<?n]\<rparr>"
    by (simp add: generateSurface3DData_eq [OF assms(1,2)] Let_def grid_point_def)
  ultimately show ?thesis by (simp only: calls)
qed

lemma fold_count: "(\<And>x. F x = Suc) \<Longrightarrow> fold F xs (c::nat) = c + length xs"
  by (induction xs arbitrary: c) simp_all

lemma length_cells_row_major: "length (cells_row_major n) = n * n"
  by (simp add: cells_row_major_def length_concat comp_def sum_list_triv)

text \<open>
  C4. For a grid configuration whose expression is not blank and compiles, the cell in
  column \<open>i\<close> of row \<open>j\<close> (the entry \<open>i\<close> of the \<open>j\<close>-th row: row-major order) holds the
  requested projection of \<open>f\<close> evaluated at \<open>(xMin + i * dx) + i (yMin + j * dy)\<close>, with
  \<open>dx = (xMax - xMin) / max(resolution - 1, 1)\<close> and \<open>dy\<close> likewise; the projection is
  written as it is when finite, and as the invalid marker otherwise. The projections are
  \<open>Math.sqrt(re * re + im * im)\<close> for the modulus, \<open>Math.atan2(im, re)\<close> for the argument,
  and the real and the imaginary part. In the surface variant the axis arrays hold the
  coordinates of the cells, and the height and the colour of a cell are two projections
  of the value of one evaluation: run with an evaluator that records its calls, the
  generator returns the same grids and has called \<open>evaluate\<close> once for each cell, in
  row-major order, \<open>resolution * resolution\<close> times in all.
\<close>

theorem grid_cells_row_major:
  assumes "\<not> blank (dc_expression dconf)"
    and "compile mj (dc_expression dconf) = Some f"
    and "\<not> blank (sf_expression sconf)"
    and "compile mj (sf_expression sconf) = Some g"
  shows "(\<forall>j < nat (dc_resolution dconf). \<forall>i < nat (dc_resolution dconf).
           dd_z (generateDomainColoringData env mj dconf) ! j ! i =
             (case evalF mj f (domain_point env dconf i j) of
                None \<Rightarrow> NaN env
              | Some out \<Rightarrow>
                  if isFinite env (getColorValue env out (dc_colorBy dconf))
                  then getColorValue env out (dc_colorBy dconf) else NaN env) \<and>
           dd_colors (generateDomainColoringData env mj dconf) ! j ! i =
             dd_z (generateDomainColoringData env mj dconf) ! j ! i)
       \<and> (\<forall>j < nat (sf_resolution sconf). \<forall>i < nat (sf_resolution sconf).
           sd_x (generateSurface3DData env mj sconf) ! i = re (surface_point env sconf i j) \<and>
           sd_y (generateSurface3DData env mj sconf) ! j = im (surface_point env sconf i j) \<and>
           sd_z (generateSurface3DData env mj sconf) ! j ! i =
             (case evalF mj g (surface_point env sconf i j) of
                None \<Rightarrow> NaN env
              | Some out \<Rightarrow>
                  if isFinite env (getColorValue env out (sf_heightBy sconf))
                  then getColorValue env out (sf_heightBy sconf) else NaN env) \<and>
           sd_colors (generateSurface3DData env mj sconf) ! j ! i =
             (case evalF mj g (surface_point env sconf i j) of
                None \<Rightarrow> NaN env
              | Some out \<Rightarrow>
                  if isFinite env (getColorValue env out (sf_colorBy sconf))
                  then getColorValue env out (sf_colorBy sconf) else NaN env))
       \<and> (\<forall>out.
            getColorValue env out ''modulus'' =
              Math_sqrt env (re out * re out + im out * im out) \<and>
            getColorValue env out ''argument'' = Math_atan2 env (im out) (re out) \<and>
            getColorValue env out ''real'' = re out \<and>
            getColorValue env out ''imaginary'' = im out)
       \<and> domain_point env dconf i j =
            \<lparr>re = dc_xMin dconf + js_number env (of_nat i) *
                    ((dc_xMax dconf - dc_xMin dconf) /
                     js_number env (of_int (max (dc_resolution dconf - 1) 1))),
             im = dc_yMin dconf + js_number env (of_nat j) *
                    ((dc_yMax dconf - dc_yMin dconf) /
                     js_number env (of_int (max (dc_resolution dconf - 1) 1)))\<rparr>
       \<and> surface_point env sconf i j =
            \<lparr>re = sf_xMin sconf + js_number env (of_nat i) *
                    ((sf_xMax sconf - sf_xMin sconf) /
                     js_number env (of_int (max (sf_resolution sconf - 1) 1))),
             im = sf_yMin sconf + js_number env (of_nat j) *
                    ((sf_yMax sconf - sf_yMin sconf) /
                     js_number env (of_int (max (sf_resolution sconf - 1) 1)))\<rparr>
       \<and> (\<forall>compile_st note st.
            compile_st (sf_expression sconf) = Some (recording g note) \<longrightarrow>
            generateSurface3DData_st env mj compile_st sconf st =
              (generateSurface3DData env mj sconf,
               fold (\<lambda>(i, j). note ([''z'' \<mapsto> toMathComplex (surface_point env sconf i j)] ++
                                      mathConstants mj))
                 (cells_row_major (nat (sf_resolution sconf))) st))
       \<and> (\<forall>compile_st count.
            compile_st (sf_expression sconf) = Some (recording g (\<lambda>scope. Suc)) \<longrightarrow>
            snd (generateSurface3DData_st env mj compile_st sconf count) =
              count + nat (sf_resolution sconf) * nat (sf_resolution sconf))"
proof -
  have d: "\<forall>j < nat (dc_resolution dconf). \<forall>i < nat (dc_resolution dconf).
           dd_z (generateDomainColoringData env mj dconf) ! j ! i =
             (case evalF mj f (domain_point env dconf i j) of
                None \<Rightarrow> NaN env
              | Some out \<Rightarrow>
                  if isFinite env (getColorValue env out (dc_colorBy dconf))
                  then getColorValue env out (dc_colorBy dconf) else NaN env) \<and>
           dd_colors (generateDomainColoringData env mj dconf) ! j ! i =
             dd_z (generateDomainColoringData env mj dconf) ! j ! i"
    using domain_grid_facts(5,6) [OF assms(1,2), where env = env]
    by (simp add: projected_def)
  have s: "\<forall>j < nat (sf_resolution sconf). \<forall>i < nat (sf_resolution sconf).
           sd_x (generateSurface3DData env mj sconf) ! i = re (surface_point env sconf i j) \<and>
           sd_y (generateSurface3DData env mj sconf) ! j = im (surface_point env sconf i j) \<and>
           sd_z (generateSurface3DData env mj sconf) ! j ! i =
             (case evalF mj g (surface_point env sconf i j) of
                None \<Rightarrow> NaN env
              | Some out \<Rightarrow>
                  if isFinite env (getColorValue env out (sf_heightBy sconf))
                  then getColorValue env out (sf_heightBy sconf) else NaN env) \<and>
           sd_colors (generateSurface3DData env mj sconf) ! j ! i =
             (case evalF mj g (surface_point env sconf i j) of
                None \<Rightarrow> NaN env
              | Some out \<Rightarrow>
                  if isFinite env (getColorValue env out (sf_colorBy sconf))
                  then getColorValue env out (sf_colorBy sconf) else NaN env)"
    using surface_grid_facts(5,6,9,10) [OF assms(3,4), where env = env]
    by (simp add: projected_def)
  have p: "\<forall>out.
            getColorValue env out ''modulus'' =
              Math_sqrt env (re out * re out + im out * im out) \<and>
            getColorValue env out ''argument'' = Math_atan2 env (im out) (re out) \<and>
            getColorValue env out ''real'' = re out \<and>
            getColorValue env out ''imaginary'' = im out"
    by (simp add: getColorValue_def modulus_def argument_def)
  have dp: "domain_point env dconf i j =
            \<lparr>re = dc_xMin dconf + js_number env (of_nat i) *
                    ((dc_xMax dconf - dc_xMin dconf) /
                     js_number env (of_int (max (dc_resolution dconf - 1) 1))),
             im = dc_yMin dconf + js_number env (of_nat j) *
                    ((dc_yMax dconf - dc_yMin dconf) /
                     js_number env (of_int (max (dc_resolution dconf - 1) 1)))\<rparr>"
    by (simp add: domain_point_def grid_point_def position_def spacing_def)
  have sp: "surface_point env sconf i j =
            \<lparr>re = sf_xMin sconf + js_number env (of_nat i) *
                    ((sf_xMax sconf - sf_xMin sconf) /
                     js_number env (of_int (max (sf_resolution sconf - 1) 1))),
             im = sf_yMin sconf + js_number env (of_nat j) *
                    ((sf_yMax sconf - sf_yMin sconf) /
                     js_number env (of_int (max (sf_resolution sconf - 1) 1)))\<rparr>"
    by (simp add: surface_point_def grid_point_def position_def spacing_def)
  have once: "\<forall>compile_st note st.
            compile_st (sf_expression sconf) = Some (recording g note) \<longrightarrow>
            generateSurface3DData_st env mj compile_st sconf st =
              (generateSurface3DData env mj sconf,
               fold (\<lambda>(i, j). note ([''z'' \<mapsto> toMathComplex (surface_point env sconf i j)] ++
                                      mathConstants mj))
                 (cells_row_major (nat (sf_resolution sconf))) st)"
    by (intro allI impI) (rule generateSurface3DData_st_eq [OF assms(3,4)])
  have count: "\<forall>compile_st count.
            compile_st (sf_expression sconf) = Some (recording g (\<lambda>scope. Suc)) \<longrightarrow>
            snd (generateSurface3DData_st env mj compile_st sconf count) =
              count + nat (sf_resolution sconf) * nat (sf_resolution sconf)"
  proof (intro allI impI)
    fix compile_st and count :: nat
    assume "compile_st (sf_expression sconf) = Some (recording g (\<lambda>scope. Suc))"
    then have "snd (generateSurface3DData_st env mj compile_st sconf count) =
        fold (\<lambda>(i, j). Suc) (cells_row_major (nat (sf_resolution sconf))) count"
      by (simp add: generateSurface3DData_st_eq [OF assms(3,4)])
    also have "\<dots> = count + length (cells_row_major (nat (sf_resolution sconf)))"
      by (rule fold_count) auto
    finally show "snd (generateSurface3DData_st env mj compile_st sconf count) =
        count + nat (sf_resolution sconf) * nat (sf_resolution sconf)"
      by (simp add: length_cells_row_major)
  qed
  from d s p dp sp once count show ?thesis by blast
qed

lemma sample_grid_compiled:
  "\<not> blank (dc_expression (sample_domain ''z''))"
  "compile sample_mathjs (dc_expression (sample_domain ''z'')) =
     Some (compile_node sample_semantics (Variable ''z''))"
  "\<not> blank (sf_expression (sample_surface ''z''))"
  "compile sample_mathjs (sf_expression (sample_surface ''z'')) =
     Some (compile_node sample_semantics (Variable ''z''))"
  "\<not> blank (dc_expression (sample_domain ''null''))"
  "compile sample_mathjs (dc_expression (sample_domain ''null'')) =
     Some (compile_node sample_semantics (Constant ''null''))"
  "\<not> blank (sf_expression (sample_surface ''null''))"
  "compile sample_mathjs (sf_expression (sample_surface ''null'')) =
     Some (compile_node sample_semantics (Constant ''null''))"
  by (simp_all add: sample_mathjs_def sample_parse_def sample_domain_def sample_surface_def
      blank_def isWhiteSpace_def)

lemma sample_grid_values:
  "generateDomainColoringData ideal_env sample_mathjs (sample_domain ''z'') =
     \<lparr>dd_z = [[Fin 0, Fin 1], [Fin 0, Fin 1]], dd_colors = [[Fin 0, Fin 1], [Fin 0, Fin 1]]\<rparr>"
  "generateSurface3DData ideal_env sample_mathjs (sample_surface ''z'') =
     \<lparr>sd_x = [Fin 0, Fin 1], sd_y = [Fin 0, Fin 1],
      sd_z = [[Fin 0, Fin 1], [Fin 0, Fin 1]], sd_colors = [[Fin 0, Fin 0], [Fin 1, Fin 1]]\<rparr>"
  "generateDomainColoringData ideal_env sample_mathjs (sample_domain ''null'') =
     \<lparr>dd_z = [[NotANumber, NotANumber], [NotANumber, NotANumber]],
      dd_colors = [[NotANumber, NotANumber], [NotANumber, NotANumber]]\<rparr>"
  "generateSurface3DData ideal_env sample_mathjs (sample_surface ''null'') =
     \<lparr>sd_x = [Fin 0, Fin 1], sd_y = [Fin 0, Fin 1],
      sd_z = [[NotANumber, NotANumber], [NotANumber, NotANumber]],
      sd_colors = [[NotANumber, NotANumber], [NotANumber, NotANumber]]\<rparr>"
  by code_simp+

lemma sqrt_25: "sqrt 25 = (5::real)"
  using real_sqrt_abs [of 5] by simp

theorem grid_cells_row_major_witness:
  "\<not> blank (dc_expression (sample_domain ''z'')) \<and>
   compile sample_mathjs (dc_expression (sample_domain ''z'')) =
     Some (compile_node sample_semantics (Variable ''z'')) \<and>
   \<not> blank (sf_expression (sample_surface ''z'')) \<and>
   compile sample_mathjs (sf_expression (sample_surface ''z'')) =
     Some (compile_node sample_semantics (Variable ''z'')) \<and>
   (1::nat) < nat (dc_resolution (sample_domain ''z'')) \<and>
   (1::nat) < nat (sf_resolution (sample_surface ''z'')) \<and>
   evalF sample_mathjs (compile_node sample_semantics (Variable ''z''))
     (domain_point ideal_env (sample_domain ''z'') 1 0) = Some \<lparr>re = Fin 1, im = Fin 0\<rparr> \<and>
   dd_z (generateDomainColoringData ideal_env sample_mathjs (sample_domain ''z'')) ! 0 ! 1 = Fin 1 \<and>
   evalF sample_mathjs (compile_node sample_semantics (Variable ''z''))
     (surface_point ideal_env (sample_surface ''z'') 0 1) = Some \<lparr>re = Fin 0, im = Fin 1\<rparr> \<and>
   sd_z (generateSurface3DData ideal_env sample_mathjs (sample_surface ''z'')) ! 1 ! 0 = Fin 0 \<and>
   sd_colors (generateSurface3DData ideal_env sample_mathjs (sample_surface ''z'')) ! 1 ! 0 = Fin 1 \<and>
   getColorValue ideal_env \<lparr>re = Fin 3, im = Fin 4\<rparr> ''modulus'' = Fin 5 \<and>
   snd (generateSurface3DData_st ideal_env sample_mathjs
          (\<lambda>s. map_option (\<lambda>f. recording f (\<lambda>scope. Suc)) (compile sample_mathjs s))
          (sample_surface ''z'') 0) = 4"
proof -
  note t = grid_cells_row_major [OF sample_grid_compiled(1-4), where env = ideal_env]
  have n: "(1::nat) < nat (dc_resolution (sample_domain ''z''))"
    "(0::nat) < nat (dc_resolution (sample_domain ''z''))"
    "(1::nat) < nat (sf_resolution (sample_surface ''z''))"
    "(0::nat) < nat (sf_resolution (sample_surface ''z''))"
    "nat (sf_resolution (sample_surface ''z'')) = 2"
    by (simp_all add: sample_domain_def sample_surface_def)
  have c: "dc_colorBy (sample_domain ''z'') = ''real''"
    "sf_heightBy (sample_surface ''z'') = ''real''"
    "sf_colorBy (sample_surface ''z'') = ''imaginary''"
    by (simp_all add: sample_domain_def sample_surface_def)
  have e1: "evalF sample_mathjs (compile_node sample_semantics (Variable ''z''))
     (domain_point ideal_env (sample_domain ''z'') 1 0) = Some \<lparr>re = Fin 1, im = Fin 0\<rparr>"
    by code_simp
  have e2: "evalF sample_mathjs (compile_node sample_semantics (Variable ''z''))
     (surface_point ideal_env (sample_surface ''z'') 0 1) = Some \<lparr>re = Fin 0, im = Fin 1\<rparr>"
    by code_simp
  have fin: "isFinite ideal_env (Fin 0)" "isFinite ideal_env (Fin 1)"
    by (simp_all add: ideal_env_def)
  note e = e1 [unfolded One_nat_def] e2 [unfolded One_nat_def]
  from t [THEN conjunct1, rule_format, of 0 1] n(1,2)
  have 1: "dd_z (generateDomainColoringData ideal_env sample_mathjs (sample_domain ''z'')) ! 0 ! 1 = Fin 1"
    by (simp add: e c getColorValue_def fin)
  from t [THEN conjunct2, THEN conjunct1, rule_format, of 1 0] n(3,4)
  have 2: "sd_z (generateSurface3DData ideal_env sample_mathjs (sample_surface ''z'')) ! 1 ! 0 = Fin 0"
    "sd_colors (generateSurface3DData ideal_env sample_mathjs (sample_surface ''z'')) ! 1 ! 0 = Fin 1"
    by (simp_all add: e c getColorValue_def fin)
  from t [THEN conjunct2, THEN conjunct2, THEN conjunct1, rule_format, of "\<lparr>re = Fin 3, im = Fin 4\<rparr>"]
  have 3: "getColorValue ideal_env \<lparr>re = Fin 3, im = Fin 4\<rparr> ''modulus'' = Fin 5"
    by (simp add: ideal_env_def times_jsnum_def plus_jsnum_def jsnum_mul_def jsnum_add_def
        rounded_def sqrt_25)
  have cs: "(\<lambda>s. map_option (\<lambda>f. recording f (\<lambda>scope. Suc)) (compile sample_mathjs s))
              (sf_expression (sample_surface ''z'')) =
            Some (recording (compile_node sample_semantics (Variable ''z'')) (\<lambda>scope. Suc))"
    by (simp add: sample_grid_compiled(4))
  from t [THEN conjunct2, THEN conjunct2, THEN conjunct2, THEN conjunct2, THEN conjunct2,
      THEN conjunct2, rule_format,
      of "\<lambda>s. map_option (\<lambda>f. recording f (\<lambda>scope. Suc)) (compile sample_mathjs s)" 0, OF cs]
  have 4: "snd (generateSurface3DData_st ideal_env sample_mathjs
          (\<lambda>s. map_option (\<lambda>f. recording f (\<lambda>scope. Suc)) (compile sample_mathjs s))
          (sample_surface ''z'') 0) = 4"
    by (simp add: n(5))
  from sample_grid_compiled(1-4) n(1,3) e1 e2 1 2 3 4 show ?thesis by blast
qed

lemma projected_invalid:
  "v = None \<or> (\<exists>out. v = Some out \<and> \<not> isFinite env (getColorValue env out proj)) \<Longrightarrow>
   projected env v proj = NaN env"
  by (auto simp: projected_def)

lemma projected_finite:
  "\<not> isFinite env (NaN env) \<Longrightarrow> isFinite env (projected env v proj) \<Longrightarrow>
   \<exists>out. v = Some out \<and> projected env v proj = getColorValue env out proj"
  by (auto simp: projected_def split: option.splits if_splits)

text \<open>
  C3. For a domain-colouring or surface configuration whose expression is not blank and
  compiles, the grids \<open>z\<close> and \<open>colors\<close> have \<open>resolution\<close> rows of \<open>resolution\<close> entries
  each. A cell whose evaluation fails or whose projected scalar is not finite holds the
  invalid marker \<open>NaN\<close>: no cell is dropped, and, \<open>NaN\<close> not being finite, a finite cell
  (a zero, say) is always the projection of a value that was really computed. The value
  of a cell depends on the evaluation at its own point only: whatever happens at the
  other cells, two runs that agree at a cell's point agree at that cell.
\<close>

theorem grids_rectangular_invalid_marked:
  assumes "\<not> blank (dc_expression dconf)"
    and "compile mj (dc_expression dconf) = Some f"
    and "\<not> blank (sf_expression sconf)"
    and "compile mj (sf_expression sconf) = Some g"
  shows "(length (dd_z (generateDomainColoringData env mj dconf)) = nat (dc_resolution dconf) \<and>
          (\<forall>row \<in> set (dd_z (generateDomainColoringData env mj dconf)).
             length row = nat (dc_resolution dconf)) \<and>
          length (dd_colors (generateDomainColoringData env mj dconf)) = nat (dc_resolution dconf) \<and>
          (\<forall>row \<in> set (dd_colors (generateDomainColoringData env mj dconf)).
             length row = nat (dc_resolution dconf)) \<and>
          length (sd_z (generateSurface3DData env mj sconf)) = nat (sf_resolution sconf) \<and>
          (\<forall>row \<in> set (sd_z (generateSurface3DData env mj sconf)).
             length row = nat (sf_resolution sconf)) \<and>
          length (sd_colors (generateSurface3DData env mj sconf)) = nat (sf_resolution sconf) \<and>
          (\<forall>row \<in> set (sd_colors (generateSurface3DData env mj sconf)).
             length row = nat (sf_resolution sconf)))
       \<and> (\<forall>j < nat (dc_resolution dconf). \<forall>i < nat (dc_resolution dconf).
            evalF mj f (domain_point env dconf i j) = None \<or>
            (\<exists>out. evalF mj f (domain_point env dconf i j) = Some out \<and>
                   \<not> isFinite env (getColorValue env out (dc_colorBy dconf))) \<longrightarrow>
            dd_z (generateDomainColoringData env mj dconf) ! j ! i = NaN env \<and>
            dd_colors (generateDomainColoringData env mj dconf) ! j ! i = NaN env)
       \<and> (\<forall>j < nat (sf_resolution sconf). \<forall>i < nat (sf_resolution sconf).
            (evalF mj g (surface_point env sconf i j) = None \<or>
             (\<exists>out. evalF mj g (surface_point env sconf i j) = Some out \<and>
                    \<not> isFinite env (getColorValue env out (sf_heightBy sconf))) \<longrightarrow>
             sd_z (generateSurface3DData env mj sconf) ! j ! i = NaN env) \<and>
            (evalF mj g (surface_point env sconf i j) = None \<or>
             (\<exists>out. evalF mj g (surface_point env sconf i j) = Some out \<and>
                    \<not> isFinite env (getColorValue env out (sf_colorBy sconf))) \<longrightarrow>
             sd_colors (generateSurface3DData env mj sconf) ! j ! i = NaN env))
       \<and> (\<not> isFinite env (NaN env) \<longrightarrow>
            (\<forall>j < nat (dc_resolution dconf). \<forall>i < nat (dc_resolution dconf).
               isFinite env (dd_z (generateDomainColoringData env mj dconf) ! j ! i) \<longrightarrow>
               (\<exists>out. evalF mj f (domain_point env dconf i j) = Some out \<and>
                  dd_z (generateDomainColoringData env mj dconf) ! j ! i =
                    getColorValue env out (dc_colorBy dconf))) \<and>
            (\<forall>j < nat (sf_resolution sconf). \<forall>i < nat (sf_resolution sconf).
               isFinite env (sd_z (generateSurface3DData env mj sconf) ! j ! i) \<longrightarrow>
               (\<exists>out. evalF mj g (surface_point env sconf i j) = Some out \<and>
                  sd_z (generateSurface3DData env mj sconf) ! j ! i =
                    getColorValue env out (sf_heightBy sconf))))
       \<and> (\<forall>mj' f'. compile mj' (dc_expression dconf) = Some f' \<longrightarrow>
            (\<forall>j < nat (dc_resolution dconf). \<forall>i < nat (dc_resolution dconf).
               evalF mj' f' (domain_point env dconf i j) = evalF mj f (domain_point env dconf i j) \<longrightarrow>
               dd_z (generateDomainColoringData env mj' dconf) ! j ! i =
                 dd_z (generateDomainColoringData env mj dconf) ! j ! i \<and>
               dd_colors (generateDomainColoringData env mj' dconf) ! j ! i =
                 dd_colors (generateDomainColoringData env mj dconf) ! j ! i))
       \<and> (\<forall>mj' g'. compile mj' (sf_expression sconf) = Some g' \<longrightarrow>
            (\<forall>j < nat (sf_resolution sconf). \<forall>i < nat (sf_resolution sconf).
               evalF mj' g' (surface_point env sconf i j) = evalF mj g (surface_point env sconf i j) \<longrightarrow>
               sd_z (generateSurface3DData env mj' sconf) ! j ! i =
                 sd_z (generateSurface3DData env mj sconf) ! j ! i \<and>
               sd_colors (generateSurface3DData env mj' sconf) ! j ! i =
                 sd_colors (generateSurface3DData env mj sconf) ! j ! i))"
proof -
  note d = domain_grid_facts [OF assms(1,2), where env = env]
  note s = surface_grid_facts [OF assms(3,4), where env = env]
  have shape:
    "length (dd_z (generateDomainColoringData env mj dconf)) = nat (dc_resolution dconf) \<and>
     (\<forall>row \<in> set (dd_z (generateDomainColoringData env mj dconf)).
        length row = nat (dc_resolution dconf)) \<and>
     length (dd_colors (generateDomainColoringData env mj dconf)) = nat (dc_resolution dconf) \<and>
     (\<forall>row \<in> set (dd_colors (generateDomainColoringData env mj dconf)).
        length row = nat (dc_resolution dconf)) \<and>
     length (sd_z (generateSurface3DData env mj sconf)) = nat (sf_resolution sconf) \<and>
     (\<forall>row \<in> set (sd_z (generateSurface3DData env mj sconf)).
        length row = nat (sf_resolution sconf)) \<and>
     length (sd_colors (generateSurface3DData env mj sconf)) = nat (sf_resolution sconf) \<and>
     (\<forall>row \<in> set (sd_colors (generateSurface3DData env mj sconf)).
        length row = nat (sf_resolution sconf))"
    using rows_length [OF d(1) d(3)] rows_length [OF d(2) d(4)]
      rows_length [OF s(1) s(3)] rows_length [OF s(2) s(4)] d(1,2) s(1,2)
    by simp
  have dmark: "\<forall>j < nat (dc_resolution dconf). \<forall>i < nat (dc_resolution dconf).
            evalF mj f (domain_point env dconf i j) = None \<or>
            (\<exists>out. evalF mj f (domain_point env dconf i j) = Some out \<and>
                   \<not> isFinite env (getColorValue env out (dc_colorBy dconf))) \<longrightarrow>
            dd_z (generateDomainColoringData env mj dconf) ! j ! i = NaN env \<and>
            dd_colors (generateDomainColoringData env mj dconf) ! j ! i = NaN env"
    by (simp add: d(5,6) projected_invalid)
  have smark: "\<forall>j < nat (sf_resolution sconf). \<forall>i < nat (sf_resolution sconf).
            (evalF mj g (surface_point env sconf i j) = None \<or>
             (\<exists>out. evalF mj g (surface_point env sconf i j) = Some out \<and>
                    \<not> isFinite env (getColorValue env out (sf_heightBy sconf))) \<longrightarrow>
             sd_z (generateSurface3DData env mj sconf) ! j ! i = NaN env) \<and>
            (evalF mj g (surface_point env sconf i j) = None \<or>
             (\<exists>out. evalF mj g (surface_point env sconf i j) = Some out \<and>
                    \<not> isFinite env (getColorValue env out (sf_colorBy sconf))) \<longrightarrow>
             sd_colors (generateSurface3DData env mj sconf) ! j ! i = NaN env)"
    by (simp add: s(5,6) projected_invalid)
  have nozero: "\<not> isFinite env (NaN env) \<longrightarrow>
            (\<forall>j < nat (dc_resolution dconf). \<forall>i < nat (dc_resolution dconf).
               isFinite env (dd_z (generateDomainColoringData env mj dconf) ! j ! i) \<longrightarrow>
               (\<exists>out. evalF mj f (domain_point env dconf i j) = Some out \<and>
                  dd_z (generateDomainColoringData env mj dconf) ! j ! i =
                    getColorValue env out (dc_colorBy dconf))) \<and>
            (\<forall>j < nat (sf_resolution sconf). \<forall>i < nat (sf_resolution sconf).
               isFinite env (sd_z (generateSurface3DData env mj sconf) ! j ! i) \<longrightarrow>
               (\<exists>out. evalF mj g (surface_point env sconf i j) = Some out \<and>
                  sd_z (generateSurface3DData env mj sconf) ! j ! i =
                    getColorValue env out (sf_heightBy sconf)))"
    by (simp add: d(5) s(5) projected_finite)
  have dun: "\<forall>mj' f'. compile mj' (dc_expression dconf) = Some f' \<longrightarrow>
            (\<forall>j < nat (dc_resolution dconf). \<forall>i < nat (dc_resolution dconf).
               evalF mj' f' (domain_point env dconf i j) = evalF mj f (domain_point env dconf i j) \<longrightarrow>
               dd_z (generateDomainColoringData env mj' dconf) ! j ! i =
                 dd_z (generateDomainColoringData env mj dconf) ! j ! i \<and>
               dd_colors (generateDomainColoringData env mj' dconf) ! j ! i =
                 dd_colors (generateDomainColoringData env mj dconf) ! j ! i)"
    by (simp add: d(5,6) domain_grid_facts(5,6) [OF assms(1)])
  have sun: "\<forall>mj' g'. compile mj' (sf_expression sconf) = Some g' \<longrightarrow>
            (\<forall>j < nat (sf_resolution sconf). \<forall>i < nat (sf_resolution sconf).
               evalF mj' g' (surface_point env sconf i j) = evalF mj g (surface_point env sconf i j) \<longrightarrow>
               sd_z (generateSurface3DData env mj' sconf) ! j ! i =
                 sd_z (generateSurface3DData env mj sconf) ! j ! i \<and>
               sd_colors (generateSurface3DData env mj' sconf) ! j ! i =
                 sd_colors (generateSurface3DData env mj sconf) ! j ! i)"
    by (simp add: s(5,6) surface_grid_facts(5,6) [OF assms(3)])
  from shape dmark smark nozero dun sun show ?thesis by blast
qed

theorem grids_rectangular_invalid_marked_witness:
  "\<not> blank (dc_expression (sample_domain ''null'')) \<and>
   compile sample_mathjs (dc_expression (sample_domain ''null'')) =
     Some (compile_node sample_semantics (Constant ''null'')) \<and>
   \<not> blank (sf_expression (sample_surface ''null'')) \<and>
   compile sample_mathjs (sf_expression (sample_surface ''null'')) =
     Some (compile_node sample_semantics (Constant ''null'')) \<and>
   (1::nat) < nat (dc_resolution (sample_domain ''null'')) \<and>
   evalF sample_mathjs (compile_node sample_semantics (Constant ''null''))
     (domain_point ideal_env (sample_domain ''null'') 1 1) = None \<and>
   \<not> isFinite ideal_env (NaN ideal_env) \<and>
   length (dd_z (generateDomainColoringData ideal_env sample_mathjs (sample_domain ''null''))) = 2 \<and>
   length (dd_z (generateDomainColoringData ideal_env sample_mathjs (sample_domain ''null'')) ! 0) = 2 \<and>
   length (dd_z (generateDomainColoringData ideal_env sample_mathjs (sample_domain ''null'')) ! 1) = 2 \<and>
   dd_z (generateDomainColoringData ideal_env sample_mathjs (sample_domain ''null'')) ! 1 ! 1 =
     NaN ideal_env"
proof -
  have n: "(1::nat) < nat (dc_resolution (sample_domain ''null''))"
    "nat (dc_resolution (sample_domain ''null'')) = 2"
    by (simp_all add: sample_domain_def)
  have e: "evalF sample_mathjs (compile_node sample_semantics (Constant ''null''))
     (domain_point ideal_env (sample_domain ''null'') 1 1) = None"
    by code_simp
  have nan: "\<not> isFinite ideal_env (NaN ideal_env)" by code_simp
  note t = grids_rectangular_invalid_marked [OF sample_grid_compiled(5-8), of ideal_env]
  from t n(2)
  have 0: "length (dd_z (generateDomainColoringData ideal_env sample_mathjs (sample_domain ''null''))) = 2 \<and>
   (\<forall>row \<in> set (dd_z (generateDomainColoringData ideal_env sample_mathjs (sample_domain ''null''))).
      length row = 2)"
    by simp
  then have 1: "length (dd_z (generateDomainColoringData ideal_env sample_mathjs (sample_domain ''null''))) = 2 \<and>
   length (dd_z (generateDomainColoringData ideal_env sample_mathjs (sample_domain ''null'')) ! 0) = 2 \<and>
   length (dd_z (generateDomainColoringData ideal_env sample_mathjs (sample_domain ''null'')) ! 1) = 2"
    by (metis nth_mem one_less_numeral_iff pos2 semiring_norm(76))
  from t n(1) e
  have 2: "dd_z (generateDomainColoringData ideal_env sample_mathjs (sample_domain ''null'')) ! 1 ! 1 =
     NaN ideal_env"
    by blast
  from sample_grid_compiled(5-8) n(1) e nan 1 2 show ?thesis by blast
qed

section \<open>Failures\<close>

lemma map_filter_append:
  "List.map_filter f (xs @ ys) = List.map_filter f xs @ List.map_filter f ys"
  by (simp add: map_filter_def)

lemma map_filter_skip:
  assumes "k < n" and "f k = None"
  shows "List.map_filter f [0..<n] = List.map_filter f ([0..<k] @ [Suc k..<n])"
proof -
  from assms(1) have "[0..<k + (n - k)] = [0..<k] @ [k..<k + (n - k)]"
    by (intro upt_add_eq_append) simp
  with assms(1) have "[0..<n] = [0..<k] @ k # [Suc k..<n]"
    by (simp add: upt_conv_Cons del: upt_Suc)
  then show ?thesis
    using assms(2) by (simp add: map_filter_append map_filter_simps del: upt_Suc)
qed

lemma compile_failure_empty:
  assumes "compile mj e = None"
  shows "evaluateSingleContour env mj e tf tMin tMax tSteps = []"
    and "dc_expression dconf = e \<Longrightarrow>
         generateDomainColoringData env mj dconf = \<lparr>dd_z = [], dd_colors = []\<rparr>"
    and "sf_expression sconf = e \<Longrightarrow>
         generateSurface3DData env mj sconf = \<lparr>sd_x = [], sd_y = [], sd_z = [], sd_colors = []\<rparr>"
    and "ce_expression contour = e \<Longrightarrow> computeContourIntegral env mj contour = None"
  using assms
  by (simp_all add: evaluateSingleContour_def generateDomainColoringData_def
      generateSurface3DData_def computeContourIntegral_def Let_def)

lemma transform_failure_empty:
  assumes "\<not> blank tf" and "compile mj tf = None"
  shows "evaluateSingleContour env mj e tf tMin tMax tSteps = []"
    and "ce_transformFunction contour = tf \<Longrightarrow> computeContourIntegral env mj contour = None"
  using assms
  by (simp_all add: evaluateSingleContour_def computeContourIntegral_def not_blank_iff Let_def
      split: option.splits)

text \<open>
  C6. A curve or grid expression that fails to compile makes the operation return its
  empty result: the empty point sequence, empty grids, \<open>null\<close> for the integral; so does
  a transform that is given and fails to compile. Every function is total: no exception
  reaches the caller. An evaluation that fails at one sample or cell touches that sample
  or cell only: a contour sample that fails (or is not finite) is left out and the
  output is that of the remaining steps; a grid cell that fails holds \<open>NaN\<close> and every
  other cell holds the projection of its own value.
\<close>

theorem failures_contained:
  "(compile mj e = None \<longrightarrow>
      evaluateSingleContour env mj e tf tMin tMax tSteps = [] \<and>
      (dc_expression dconf = e \<longrightarrow>
         generateDomainColoringData env mj dconf = \<lparr>dd_z = [], dd_colors = []\<rparr>) \<and>
      (sf_expression sconf = e \<longrightarrow>
         generateSurface3DData env mj sconf =
           \<lparr>sd_x = [], sd_y = [], sd_z = [], sd_colors = []\<rparr>) \<and>
      (ce_expression contour = e \<longrightarrow> computeContourIntegral env mj contour = None))
   \<and> (\<not> blank tf \<and> compile mj tf = None \<longrightarrow>
      evaluateSingleContour env mj e tf tMin tMax tSteps = [] \<and>
      (ce_transformFunction contour = tf \<longrightarrow> computeContourIntegral env mj contour = None))
   \<and> (\<forall>gam ct k.
        \<not> blank e \<and> compile mj e = Some gam \<and>
        ct = (if blank tf then None else compile mj tf) \<and>
        (\<not> blank tf \<longrightarrow> compile mj tf \<noteq> None) \<and>
        k < nat tSteps \<and>
        contour_kept env mj gam ct (position env tMin (spacing env tMin tMax tSteps) k) = None \<longrightarrow>
        evaluateSingleContour env mj e tf tMin tMax tSteps =
          List.map_filter
            (\<lambda>step. contour_kept env mj gam ct
                       (position env tMin (spacing env tMin tMax tSteps) step))
            ([0..<k] @ [Suc k..<nat tSteps]))
   \<and> (\<forall>f i j.
        \<not> blank (dc_expression dconf) \<and> compile mj (dc_expression dconf) = Some f \<and>
        i < nat (dc_resolution dconf) \<and> j < nat (dc_resolution dconf) \<and>
        evalF mj f (domain_point env dconf i j) = None \<longrightarrow>
        dd_z (generateDomainColoringData env mj dconf) ! j ! i = NaN env \<and>
        dd_colors (generateDomainColoringData env mj dconf) ! j ! i = NaN env \<and>
        (\<forall>j' < nat (dc_resolution dconf). \<forall>i' < nat (dc_resolution dconf).
           (i', j') \<noteq> (i, j) \<longrightarrow>
           dd_z (generateDomainColoringData env mj dconf) ! j' ! i' =
             projected env (evalF mj f (domain_point env dconf i' j')) (dc_colorBy dconf) \<and>
           dd_colors (generateDomainColoringData env mj dconf) ! j' ! i' =
             projected env (evalF mj f (domain_point env dconf i' j')) (dc_colorBy dconf)))
   \<and> (\<forall>g i j.
        \<not> blank (sf_expression sconf) \<and> compile mj (sf_expression sconf) = Some g \<and>
        i < nat (sf_resolution sconf) \<and> j < nat (sf_resolution sconf) \<and>
        evalF mj g (surface_point env sconf i j) = None \<longrightarrow>
        sd_z (generateSurface3DData env mj sconf) ! j ! i = NaN env \<and>
        sd_colors (generateSurface3DData env mj sconf) ! j ! i = NaN env \<and>
        (\<forall>j' < nat (sf_resolution sconf). \<forall>i' < nat (sf_resolution sconf).
           (i', j') \<noteq> (i, j) \<longrightarrow>
           sd_z (generateSurface3DData env mj sconf) ! j' ! i' =
             projected env (evalF mj g (surface_point env sconf i' j')) (sf_heightBy sconf) \<and>
           sd_colors (generateSurface3DData env mj sconf) ! j' ! i' =
             projected env (evalF mj g (surface_point env sconf i' j')) (sf_colorBy sconf)))"
proof -
  have a: "compile mj e = None \<longrightarrow>
      evaluateSingleContour env mj e tf tMin tMax tSteps = [] \<and>
      (dc_expression dconf = e \<longrightarrow>
         generateDomainColoringData env mj dconf = \<lparr>dd_z = [], dd_colors = []\<rparr>) \<and>
      (sf_expression sconf = e \<longrightarrow>
         generateSurface3DData env mj sconf =
           \<lparr>sd_x = [], sd_y = [], sd_z = [], sd_colors = []\<rparr>) \<and>
      (ce_expression contour = e \<longrightarrow> computeContourIntegral env mj contour = None)"
    using compile_failure_empty [of mj e] by blast
  have b: "\<not> blank tf \<and> compile mj tf = None \<longrightarrow>
      evaluateSingleContour env mj e tf tMin tMax tSteps = [] \<and>
      (ce_transformFunction contour = tf \<longrightarrow> computeContourIntegral env mj contour = None)"
    using transform_failure_empty [of tf mj] by blast
  have c: "\<forall>gam ct k.
        \<not> blank e \<and> compile mj e = Some gam \<and>
        ct = (if blank tf then None else compile mj tf) \<and>
        (\<not> blank tf \<longrightarrow> compile mj tf \<noteq> None) \<and>
        k < nat tSteps \<and>
        contour_kept env mj gam ct (position env tMin (spacing env tMin tMax tSteps) k) = None \<longrightarrow>
        evaluateSingleContour env mj e tf tMin tMax tSteps =
          List.map_filter
            (\<lambda>step. contour_kept env mj gam ct
                       (position env tMin (spacing env tMin tMax tSteps) step))
            ([0..<k] @ [Suc k..<nat tSteps])"
  proof (intro allI impI, elim conjE)
    fix gam ct k
    assume h: "\<not> blank e" "compile mj e = Some gam"
      "ct = (if blank tf then None else compile mj tf)"
      "\<not> blank tf \<longrightarrow> compile mj tf \<noteq> None"
      and k: "k < nat tSteps"
      and fail: "contour_kept env mj gam ct (position env tMin (spacing env tMin tMax tSteps) k) = None"
    have "evaluateSingleContour env mj e tf tMin tMax tSteps =
          List.map_filter
            (\<lambda>step. contour_kept env mj gam ct
                       (position env tMin (spacing env tMin tMax tSteps) step))
            [0..<nat tSteps]"
      using h by (rule evaluateSingleContour_eq)
    also have "\<dots> = List.map_filter
            (\<lambda>step. contour_kept env mj gam ct
                       (position env tMin (spacing env tMin tMax tSteps) step))
            ([0..<k] @ [Suc k..<nat tSteps])"
      using k fail by (rule map_filter_skip)
    finally show "evaluateSingleContour env mj e tf tMin tMax tSteps =
          List.map_filter
            (\<lambda>step. contour_kept env mj gam ct
                       (position env tMin (spacing env tMin tMax tSteps) step))
            ([0..<k] @ [Suc k..<nat tSteps])" .
  qed
  have d: "\<forall>f i j.
        \<not> blank (dc_expression dconf) \<and> compile mj (dc_expression dconf) = Some f \<and>
        i < nat (dc_resolution dconf) \<and> j < nat (dc_resolution dconf) \<and>
        evalF mj f (domain_point env dconf i j) = None \<longrightarrow>
        dd_z (generateDomainColoringData env mj dconf) ! j ! i = NaN env \<and>
        dd_colors (generateDomainColoringData env mj dconf) ! j ! i = NaN env \<and>
        (\<forall>j' < nat (dc_resolution dconf). \<forall>i' < nat (dc_resolution dconf).
           (i', j') \<noteq> (i, j) \<longrightarrow>
           dd_z (generateDomainColoringData env mj dconf) ! j' ! i' =
             projected env (evalF mj f (domain_point env dconf i' j')) (dc_colorBy dconf) \<and>
           dd_colors (generateDomainColoringData env mj dconf) ! j' ! i' =
             projected env (evalF mj f (domain_point env dconf i' j')) (dc_colorBy dconf))"
    by (simp add: domain_grid_facts(5,6) projected_def)
  have s: "\<forall>g i j.
        \<not> blank (sf_expression sconf) \<and> compile mj (sf_expression sconf) = Some g \<and>
        i < nat (sf_resolution sconf) \<and> j < nat (sf_resolution sconf) \<and>
        evalF mj g (surface_point env sconf i j) = None \<longrightarrow>
        sd_z (generateSurface3DData env mj sconf) ! j ! i = NaN env \<and>
        sd_colors (generateSurface3DData env mj sconf) ! j ! i = NaN env \<and>
        (\<forall>j' < nat (sf_resolution sconf). \<forall>i' < nat (sf_resolution sconf).
           (i', j') \<noteq> (i, j) \<longrightarrow>
           sd_z (generateSurface3DData env mj sconf) ! j' ! i' =
             projected env (evalF mj g (surface_point env sconf i' j')) (sf_heightBy sconf) \<and>
           sd_colors (generateSurface3DData env mj sconf) ! j' ! i' =
             projected env (evalF mj g (surface_point env sconf i' j')) (sf_colorBy sconf))"
    by (simp add: surface_grid_facts(5,6) projected_def)
  from a b c d s show ?thesis by blast
qed

theorem failures_contained_witness:
  "compile sample_mathjs ''('' = None \<and>
   evaluateSingleContour ideal_env sample_mathjs ''('' '''' (Fin 0) (Fin 1) 3 = [] \<and>
   generateDomainColoringData ideal_env sample_mathjs (sample_domain ''('') =
     \<lparr>dd_z = [], dd_colors = []\<rparr> \<and>
   generateSurface3DData ideal_env sample_mathjs (sample_surface ''('') =
     \<lparr>sd_x = [], sd_y = [], sd_z = [], sd_colors = []\<rparr> \<and>
   computeContourIntegral ideal_env sample_mathjs (sample_contour\<lparr>ce_expression := ''(''\<rparr>) = None \<and>
   \<not> blank ''1/t'' \<and>
   compile sample_mathjs ''1/t'' =
     Some (compile_node sample_semantics (BinaryOp ''/'' (NumberLiteral (Fin 1)) (Variable ''t''))) \<and>
   (0::nat) < nat 3 \<and>
   contour_kept ideal_env sample_mathjs
     (compile_node sample_semantics (BinaryOp ''/'' (NumberLiteral (Fin 1)) (Variable ''t''))) None
     (position ideal_env (Fin 0) (spacing ideal_env (Fin 0) (Fin 1) 3) 0) = None \<and>
   evaluateSingleContour ideal_env sample_mathjs ''1/t'' '''' (Fin 0) (Fin 1) 3 =
     List.map_filter
       (\<lambda>step. contour_kept ideal_env sample_mathjs
          (compile_node sample_semantics (BinaryOp ''/'' (NumberLiteral (Fin 1)) (Variable ''t''))) None
          (position ideal_env (Fin 0) (spacing ideal_env (Fin 0) (Fin 1) 3) step))
       ([0..<0] @ [Suc 0..<nat 3]) \<and>
   evalF sample_mathjs (compile_node sample_semantics (Constant ''null''))
     (domain_point ideal_env (sample_domain ''null'') 0 1) = None \<and>
   dd_z (generateDomainColoringData ideal_env sample_mathjs (sample_domain ''null'')) ! 1 ! 0 =
     NaN ideal_env"
proof -
  note t = failures_contained [where env = ideal_env and mj = sample_mathjs]
  have c0: "compile sample_mathjs ''('' = None"
    by (simp add: sample_mathjs_def sample_parse_def)
  have e0: "dc_expression (sample_domain ''('') = ''(''" "sf_expression (sample_surface ''('') = ''(''"
    "ce_expression (sample_contour\<lparr>ce_expression := ''(''\<rparr>) = ''(''"
    by (simp_all add: sample_domain_def sample_surface_def)
  from t [where e = "''(''" and dconf = "sample_domain ''(''" and sconf = "sample_surface ''(''"
      and contour = "sample_contour\<lparr>ce_expression := ''(''\<rparr>" and tf = "''''"
      and tMin = "Fin 0" and tMax = "Fin 1" and tSteps = 3] c0 e0
  have 1: "evaluateSingleContour ideal_env sample_mathjs ''('' '''' (Fin 0) (Fin 1) 3 = [] \<and>
   generateDomainColoringData ideal_env sample_mathjs (sample_domain ''('') =
     \<lparr>dd_z = [], dd_colors = []\<rparr> \<and>
   generateSurface3DData ideal_env sample_mathjs (sample_surface ''('') =
     \<lparr>sd_x = [], sd_y = [], sd_z = [], sd_colors = []\<rparr> \<and>
   computeContourIntegral ideal_env sample_mathjs (sample_contour\<lparr>ce_expression := ''(''\<rparr>) = None"
    by blast
  have nb: "\<not> blank ''1/t''" by code_simp
  have bl: "blank ''''" by (simp add: blank_def)
  have c1: "compile sample_mathjs ''1/t'' =
     Some (compile_node sample_semantics (BinaryOp ''/'' (NumberLiteral (Fin 1)) (Variable ''t'')))"
    by (simp add: sample_mathjs_def sample_parse_def)
  have k: "(0::nat) < nat 3" by simp
  have drop: "contour_kept ideal_env sample_mathjs
     (compile_node sample_semantics (BinaryOp ''/'' (NumberLiteral (Fin 1)) (Variable ''t''))) None
     (position ideal_env (Fin 0) (spacing ideal_env (Fin 0) (Fin 1) 3) 0) = None"
    by code_simp
  have 2: "evaluateSingleContour ideal_env sample_mathjs ''1/t'' '''' (Fin 0) (Fin 1) 3 =
     List.map_filter
       (\<lambda>step. contour_kept ideal_env sample_mathjs
          (compile_node sample_semantics (BinaryOp ''/'' (NumberLiteral (Fin 1)) (Variable ''t''))) None
          (position ideal_env (Fin 0) (spacing ideal_env (Fin 0) (Fin 1) 3) step))
       ([0..<0] @ [Suc 0..<nat 3])"
    using nb bl c1 k drop
    by (intro t [where e = "''1/t''" and tf = "''''" and tMin = "Fin 0" and tMax = "Fin 1"
          and tSteps = 3, THEN conjunct2, THEN conjunct2, THEN conjunct1, rule_format]) simp
  have ev: "evalF sample_mathjs (compile_node sample_semantics (Constant ''null''))
     (domain_point ideal_env (sample_domain ''null'') 0 1) = None"
    by code_simp
  have n: "(0::nat) < nat (dc_resolution (sample_domain ''null''))"
    "(1::nat) < nat (dc_resolution (sample_domain ''null''))"
    by (simp_all add: sample_domain_def)
  have 3: "dd_z (generateDomainColoringData ideal_env sample_mathjs (sample_domain ''null'')) ! 1 ! 0 =
     NaN ideal_env"
    using sample_grid_compiled(5,6) n ev
      t [where dconf = "sample_domain ''null''", THEN conjunct2, THEN conjunct2, THEN conjunct2,
         THEN conjunct1, rule_format,
         of "compile_node sample_semantics (Constant ''null'')" 0 1]
    by blast
  from c0 1 nb c1 k drop 2 ev 3 show ?thesis by blast
qed

section \<open>The parser and evaluation at a point\<close>

lemma parseExpression_eq:
  "parseExpression mj expr v = (if blank expr then None else parse mj expr)"
  by (simp add: parseExpression_def blank_iff)

text \<open>
  C7, as stated, fails: \<open>parseExpression\<close> answers whitespace-only text and the malformed
  text \<open>(\<close> with the same value, \<open>null\<close>, so its caller cannot tell the two apart.
\<close>

theorem parseExpression_blank_indistinct:
  "blank ''  '' \<and> \<not> blank ''('' \<and> parse sample_mathjs ''('' = None \<and>
   parseExpression sample_mathjs ''  '' ''z'' = None \<and>
   parseExpression sample_mathjs ''('' ''z'' = None \<and>
   parseExpression sample_mathjs ''  '' ''z'' = parseExpression sample_mathjs ''('' ''z''"
  by (simp add: parseExpression_eq blank_def isWhiteSpace_def sample_mathjs_def sample_parse_def)

text \<open>
  C7, amended. \<open>parseExpression\<close> returns \<open>null\<close> exactly when the text is empty or
  whitespace-only or the library rejects it, and the same \<open>null\<close> in both cases; for any
  other text it returns the parsed tree. \<open>isValidExpression\<close> makes no emptiness check of
  its own: it holds exactly when the library's \<open>parse\<close> accepts the text.
\<close>

theorem parseExpression_null_both:
  "(parseExpression mj expr v = None \<longleftrightarrow> blank expr \<or> parse mj expr = None)
   \<and> (\<not> blank expr \<longrightarrow> parseExpression mj expr v = parse mj expr)
   \<and> (blank e1 \<and> \<not> blank e2 \<and> parse mj e2 = None \<longrightarrow>
        parseExpression mj e1 v = parseExpression mj e2 v)
   \<and> (isValidExpression mj expr \<longleftrightarrow> parse mj expr \<noteq> None)"
  by (auto simp: parseExpression_eq isValidExpression_def split: option.splits)

theorem parseExpression_null_both_witness:
  "blank ''  '' \<and> \<not> blank ''('' \<and> parse sample_mathjs ''('' = None \<and>
   parseExpression sample_mathjs ''  '' ''z'' = parseExpression sample_mathjs ''('' ''z'' \<and>
   \<not> blank ''z'' \<and> parseExpression sample_mathjs ''z'' ''z'' = parse sample_mathjs ''z'' \<and>
   parseExpression sample_mathjs ''z'' ''z'' = Some (Variable ''z'')"
proof -
  have h: "blank ''  ''" "\<not> blank ''(''" "\<not> blank ''z''"
    by (simp_all add: blank_def isWhiteSpace_def)
  have p: "parse sample_mathjs ''('' = None" "parse sample_mathjs ''z'' = Some (Variable ''z'')"
    by (simp_all add: sample_mathjs_def sample_parse_def)
  from parseExpression_null_both [of sample_mathjs "''z''" "''z''" "''  ''" "''(''"] h p
  show ?thesis by simp
qed

lemma those_map_cong:
  "(\<And>a. a \<in> set xs \<Longrightarrow> f a = g a) \<Longrightarrow> those (map f xs) = those (map g xs)"
  by (induction xs) (simp_all split: option.splits)

lemma evaluate_ignores_unused:
  "\<not> occurs v n \<Longrightarrow> evaluate sem (s(v \<mapsto> x)) n = evaluate sem (s(v \<mapsto> y)) n"
proof (induction n)
  case (Call name args)
  from Call.prems have "\<forall>a \<in> set args. \<not> occurs v a"
    by (simp only: occurs.simps list_ex_iff) blast
  with Call.IH have "\<And>a. a \<in> set args \<Longrightarrow>
      evaluate sem (s(v \<mapsto> x)) a = evaluate sem (s(v \<mapsto> y)) a"
    by blast
  then have "those (map (evaluate sem (s(v \<mapsto> x))) args) =
             those (map (evaluate sem (s(v \<mapsto> y))) args)"
    by (rule those_map_cong)
  then show ?case by (simp only: evaluate.simps)
qed (simp_all split: option.splits)

text \<open>
  C9. For a parsed and compiled expression in which the free variable does not occur,
  \<open>evaluateAt\<close> returns the same value at any two bindings. The evaluator is the one of
  the specification, for any meaning of the constants, operators and functions; the
  second hypothesis says that the library compiles the tree that it parses.
\<close>

theorem evaluateAt_binding_irrelevant:
  assumes "parseAndCompile mj expr v = Some pe"
    and "compile mj expr = map_option (compile_node sem) (parse mj expr)"
    and "\<not> occurs v (pe_node pe)"
  shows "evaluateAt pe b1 = evaluateAt pe b2"
proof -
  from assms(1) obtain node compiled where node: "parse mj expr = Some node"
    and compiled: "compile mj expr = Some compiled"
    and pe: "pe = \<lparr>pe_node = node, pe_compiled = compiled, pe_variable = v\<rparr>"
    by (auto simp: parseAndCompile_def split: if_splits bind_splits)
  from assms(2) node compiled have c: "compiled = compile_node sem node" by simp
  from assms(3) pe have "\<not> occurs v node" by simp
  then have "evaluate sem (Map.empty(v \<mapsto> toMathComplex b1)) node =
             evaluate sem (Map.empty(v \<mapsto> toMathComplex b2)) node"
    by (rule evaluate_ignores_unused)
  then show ?thesis
    by (simp add: evaluateAt_def pe c compile_node_def)
qed

theorem evaluateAt_binding_irrelevant_witness:
  "parseAndCompile sample_mathjs ''1'' ''z'' =
     Some \<lparr>pe_node = NumberLiteral (Fin 1),
           pe_compiled = compile_node sample_semantics (NumberLiteral (Fin 1)),
           pe_variable = ''z''\<rparr> \<and>
   compile sample_mathjs ''1'' = map_option (compile_node sample_semantics) (parse sample_mathjs ''1'') \<and>
   \<not> occurs ''z'' (NumberLiteral (Fin 1)) \<and>
   evaluateAt \<lparr>pe_node = NumberLiteral (Fin 1),
               pe_compiled = compile_node sample_semantics (NumberLiteral (Fin 1)),
               pe_variable = ''z''\<rparr> \<lparr>re = Fin 2, im = Fin 3\<rparr> =
   evaluateAt \<lparr>pe_node = NumberLiteral (Fin 1),
               pe_compiled = compile_node sample_semantics (NumberLiteral (Fin 1)),
               pe_variable = ''z''\<rparr> \<lparr>re = Fin 0, im = Fin 0\<rparr> \<and>
   evaluateAt \<lparr>pe_node = NumberLiteral (Fin 1),
               pe_compiled = compile_node sample_semantics (NumberLiteral (Fin 1)),
               pe_variable = ''z''\<rparr> \<lparr>re = Fin 2, im = Fin 3\<rparr> = Some \<lparr>re = Fin 1, im = Fin 0\<rparr>"
proof -
  let ?pe = "\<lparr>pe_node = NumberLiteral (Fin 1),
             pe_compiled = compile_node sample_semantics (NumberLiteral (Fin 1)),
             pe_variable = ''z''\<rparr>"
  have h1: "parseAndCompile sample_mathjs ''1'' ''z'' = Some ?pe"
    by (simp add: parseAndCompile_def trim_def isWhiteSpace_def sample_mathjs_def sample_parse_def)
  have h2: "compile sample_mathjs ''1'' =
      map_option (compile_node sample_semantics) (parse sample_mathjs ''1'')"
    by (simp add: sample_mathjs_def)
  have h3: "\<not> occurs ''z'' (pe_node ?pe)" by simp
  have v: "evaluateAt ?pe \<lparr>re = Fin 2, im = Fin 3\<rparr> = Some \<lparr>re = Fin 1, im = Fin 0\<rparr>"
    by (simp add: evaluateAt_def compile_node_def zero_jsnum_def)
  from evaluateAt_binding_irrelevant [OF h1 h2 h3, of "\<lparr>re = Fin 2, im = Fin 3\<rparr>" "\<lparr>re = Fin 0, im = Fin 0\<rparr>"]
    h1 h2 v
  show ?thesis by simp
qed

section \<open>The argument projection\<close>

lemma arctan_quadrants:
  fixes a b :: real
  shows "0 < a \<Longrightarrow> - pi \<le> arctan (b / a) \<and> arctan (b / a) \<le> pi"
    and "a < 0 \<Longrightarrow> 0 < b \<Longrightarrow> - pi \<le> arctan (b / a) + pi \<and> arctan (b / a) + pi \<le> pi"
    and "a < 0 \<Longrightarrow> b < 0 \<Longrightarrow> - pi \<le> arctan (b / a) - pi \<and> arctan (b / a) - pi \<le> pi"
proof -
  have bounds: "- (pi / 2) < arctan (b / a)" "arctan (b / a) < pi / 2"
    by (rule arctan_lbound, rule arctan_ubound)
  have pi: "0 < pi" by (rule pi_gt_zero)
  show "0 < a \<Longrightarrow> - pi \<le> arctan (b / a) \<and> arctan (b / a) \<le> pi"
    using bounds pi by linarith
  show "a < 0 \<Longrightarrow> 0 < b \<Longrightarrow> - pi \<le> arctan (b / a) + pi \<and> arctan (b / a) + pi \<le> pi"
  proof -
    assume "a < 0" "0 < b"
    then have "b / a < 0" by (simp add: divide_pos_neg)
    then have "arctan (b / a) < 0" by (simp add: arctan_less_zero_iff)
    with bounds pi show ?thesis by linarith
  qed
  show "a < 0 \<Longrightarrow> b < 0 \<Longrightarrow> - pi \<le> arctan (b / a) - pi \<and> arctan (b / a) - pi \<le> pi"
  proof -
    assume "a < 0" "b < 0"
    then have "0 < b / a" by (simp add: divide_neg_neg)
    then have "0 < arctan (b / a)" by (simp add: zero_less_arctan_iff)
    with bounds pi show ?thesis by linarith
  qed
qed

lemma pi_fractions:
  "- pi \<le> pi" "- pi \<le> 0" "0 \<le> pi"
  "- pi \<le> pi / 2" "pi / 2 \<le> pi" "- pi \<le> - (pi / 2)" "- (pi / 2) \<le> pi"
  "- pi \<le> pi / 4" "pi / 4 \<le> pi" "- pi \<le> - (pi / 4)" "- (pi / 4) \<le> pi"
  "- pi \<le> 3 * pi / 4" "3 * pi / 4 \<le> pi" "- pi \<le> - (3 * pi / 4)" "- (3 * pi / 4) \<le> pi"
  using pi_gt_zero by linarith+

lemma jsnum_atan2_closed:
  assumes "y \<noteq> NotANumber" and "x \<noteq> NotANumber"
  shows "in_closed_range (jsnum_atan2 y x)"
proof (cases y)
  case (Fin b)
  show ?thesis
  proof (cases x)
    case xa: (Fin a)
    consider "b = 0" | "0 < b" "a = 0" | "0 < b" "0 < a" | "0 < b" "a < 0"
      | "b < 0" "a = 0" | "b < 0" "0 < a" | "b < 0" "a < 0"
      by linarith
    then show ?thesis
      using arctan_quadrants [of a b] Fin xa
      by cases (auto simp: jsnum_atan2_def in_closed_range_def pi_fractions)
  qed (use Fin assms in \<open>auto simp: jsnum_atan2_def in_closed_range_def pi_fractions\<close>)
next
  case NegZero
  with assms show ?thesis
    by (cases x) (auto simp: jsnum_atan2_def in_closed_range_def pi_fractions)
next
  case PosInfinity
  with assms show ?thesis
    by (cases x) (auto simp: jsnum_atan2_def in_closed_range_def pi_fractions)
next
  case NegInfinity
  with assms show ?thesis
    by (cases x) (auto simp: jsnum_atan2_def in_closed_range_def pi_fractions)
next
  case NotANumber
  with assms show ?thesis by simp
qed

text \<open>
  C8, as stated, fails: a complex value with a NaN component, as the evaluation of \<open>0/0\<close>
  produces, has the argument NaN, which lies in no interval.
\<close>

theorem argument_nan_outside_range:
  "\<not> in_half_open_range (argument ideal_env \<lparr>re = NotANumber, im = Fin 0\<rparr>)"
  by (simp add: argument_def ideal_env_def jsnum_atan2_def in_half_open_range_def)

text \<open>
  C8, amended. The argument projection of \<open>(re, im)\<close> is \<open>Math.atan2(im, re)\<close>, also when it
  is selected through \<open>getColorValue\<close>. On idealised doubles it lies in the closed interval
  \<open>[-\<pi>, \<pi>]\<close> when neither component is NaN, and is NaN otherwise. The lower bound is
  attained: the argument of \<open>-1 - 0i\<close> (negative zero imaginary part) is \<open>-\<pi>\<close>, which is
  why the source documents the range as closed.
\<close>

theorem argument_range_closed:
  "argument env q = Math_atan2 env (im q) (re q)
   \<and> getColorValue env q ''argument'' = Math_atan2 env (im q) (re q)
   \<and> argument ideal_env p = jsnum_atan2 (im p) (re p)
   \<and> (re p \<noteq> NotANumber \<and> im p \<noteq> NotANumber \<longrightarrow> in_closed_range (argument ideal_env p))
   \<and> (re p = NotANumber \<or> im p = NotANumber \<longrightarrow> argument ideal_env p = NotANumber)
   \<and> argument ideal_env \<lparr>re = Fin (- 1), im = NegZero\<rparr> = Fin (- pi)"
proof -
  have 1: "argument env q = Math_atan2 env (im q) (re q)"
    by (simp add: argument_def)
  have 2: "getColorValue env q ''argument'' = Math_atan2 env (im q) (re q)"
    by (simp add: getColorValue_def argument_def)
  have 3: "argument ideal_env p = jsnum_atan2 (im p) (re p)"
    by (simp add: argument_def ideal_env_def)
  have 4: "re p \<noteq> NotANumber \<and> im p \<noteq> NotANumber \<longrightarrow> in_closed_range (argument ideal_env p)"
    unfolding 3 using jsnum_atan2_closed by blast
  have 5: "re p = NotANumber \<or> im p = NotANumber \<longrightarrow> argument ideal_env p = NotANumber"
    unfolding 3 by (auto simp: jsnum_atan2_def)
  have 6: "argument ideal_env \<lparr>re = Fin (- 1), im = NegZero\<rparr> = Fin (- pi)"
    by (simp add: argument_def ideal_env_def jsnum_atan2_def)
  from 1 2 3 4 5 6 show ?thesis by blast
qed

theorem argument_range_closed_witness:
  "re \<lparr>re = Fin (- 1), im = Fin 0\<rparr> \<noteq> NotANumber \<and>
   im \<lparr>re = Fin (- 1), im = Fin 0\<rparr> \<noteq> NotANumber \<and>
   in_closed_range (argument ideal_env \<lparr>re = Fin (- 1), im = Fin 0\<rparr>) \<and>
   argument ideal_env \<lparr>re = Fin (- 1), im = Fin 0\<rparr> = Fin pi \<and>
   argument ideal_env \<lparr>re = NotANumber, im = Fin 0\<rparr> = NotANumber"
proof -
  have v: "argument ideal_env \<lparr>re = Fin (- 1), im = Fin 0\<rparr> = Fin pi"
    by (simp add: argument_def ideal_env_def jsnum_atan2_def)
  have nn: "re \<lparr>re = Fin (- 1), im = Fin 0\<rparr> \<noteq> NotANumber \<and>
            im \<lparr>re = Fin (- 1), im = Fin 0 :: jsnum\<rparr> \<noteq> NotANumber"
    by simp
  from nn argument_range_closed [of ideal_env "\<lparr>re = Fin (- 1), im = Fin 0\<rparr>" "\<lparr>re = Fin (- 1), im = Fin 0\<rparr>"]
  have 1: "in_closed_range (argument ideal_env \<lparr>re = Fin (- 1), im = Fin 0\<rparr>)" by blast
  have nan: "re \<lparr>re = NotANumber, im = Fin 0\<rparr> = NotANumber" by simp
  from nan argument_range_closed [of ideal_env "\<lparr>re = Fin (- 1), im = Fin 0\<rparr>" "\<lparr>re = NotANumber, im = Fin 0\<rparr>"]
  have 2: "argument ideal_env \<lparr>re = NotANumber, im = Fin 0\<rparr> = NotANumber" by blast
  from v 1 2 show ?thesis by simp
qed

end
